theory Spec2Isabelle
  imports Complex_Main "HOL-Library.AList" "HOL-Library.Product_Lexorder"
begin

section \<open>Laser test grid: a shallow embedding of the grid marker (versions 1.0 and 2.0)\<close>

text \<open>
  The program is a Tk application. Its widgets are presentation; what is modelled is the
  data the callbacks read and write: the Tk variables, the value sequences, the dictionary
  of notes, the dictionary of buttons (only its keys matter) and the text of the entries.
  Dialogs that ask the operator something are parameters of the callback; dialogs that
  tell the operator something are returned as a list of events.

  Python strings are lists of characters, one \<^typ>\<open>char\<close> per code point below 256.
  Python floats are modelled as rational numbers with exact arithmetic: a sum, a product
  or a quotient of the model is the mathematical one, NaN and the infinities do not
  exist, and nothing overflows. The built-ins that convert between text and numbers
  (\<^verbatim>\<open>float()\<close>, \<^verbatim>\<open>int()\<close>, \<^verbatim>\<open>str()\<close> of a float and
  the format \<^verbatim>\<open>f"{v:.kf}"\<close>) are parameters of the model, collected in a record,
  so that every theorem that quantifies over that record holds for whatever these
  built-ins compute.
\<close>

subsection \<open>Python built-ins\<close>

datatype py_error = ValueError string | ZeroDivisionError string | IndexError string

record pylib =
  py_float :: "string \<Rightarrow> rat option"
  py_int :: "string \<Rightarrow> string + int"
  py_str :: "rat \<Rightarrow> string"
  py_fmt :: "nat \<Rightarrow> rat \<Rightarrow> string"

text \<open>
  \<^verbatim>\<open>py_float L s\<close> is \<^verbatim>\<open>float(s)\<close>, \<open>None\<close> when it raises;
  \<^verbatim>\<open>py_int L s\<close> is \<^verbatim>\<open>int(s)\<close>, \<open>Inl\<close> the message of the ValueError;
  \<^verbatim>\<open>py_str L v\<close> is \<^verbatim>\<open>str(v)\<close> of a float and \<^verbatim>\<open>py_fmt L k v\<close> is
  \<^verbatim>\<open>f"{v:.kf}"\<close>.
\<close>

definition py_isspace :: "char \<Rightarrow> bool" where
  "py_isspace c = ((of_char c :: nat) \<in> {9, 10, 11, 12, 13, 28, 29, 30, 31, 32, 133, 160})"

definition lstrip :: "string \<Rightarrow> string" where
  "lstrip s = dropWhile py_isspace s"

definition rstrip :: "string \<Rightarrow> string" where
  "rstrip s = rev (dropWhile py_isspace (rev s))"

definition strip :: "string \<Rightarrow> string" where
  "strip s = rstrip (lstrip s)"

text \<open>\<^verbatim>\<open>str(i)\<close> of an integer: its decimal digits, after a minus sign when it is negative.\<close>

definition digit_char :: "int \<Rightarrow> char" where
  "digit_char d = char_of (48 + d)"

function str_digits :: "int \<Rightarrow> string" where
  "str_digits i = (if i < 10 then [digit_char i] else str_digits (i div 10) @ [digit_char (i mod 10)])"
  by pat_completeness auto
termination
  by (relation "measure nat") auto

declare str_digits.simps [simp del]

definition str_nat :: "nat \<Rightarrow> string" where
  "str_nat n = str_digits (int n)"

definition str_int :: "int \<Rightarrow> string" where
  "str_int i = (if i < 0 then CHR ''-'' # str_digits (- i) else str_digits i)"

text \<open>\<^verbatim>\<open>round(v)\<close> of a float: to the nearest integer, a tie to the even one.\<close>

definition py_round :: "rat \<Rightarrow> int" where
  "py_round v =
     (let f = \<lfloor>v\<rfloor>; d = v - of_int f
      in if d < 1 / 2 then f else if 1 / 2 < d then f + 1 else if even f then f else f + 1)"

subsection \<open>Configuration (version 2.0)\<close>

definition MAX_NOTE_LENGTH :: nat where
  "MAX_NOTE_LENGTH = 512"

definition DISPLAY_NOTE_LENGTH :: nat where
  "DISPLAY_NOTE_LENGTH = 40"

definition PARAMETERS :: "string list" where
  "PARAMETERS = [''Speed'', ''Power'', ''Frequency'', ''Line Interval'', ''Passes'', ''Q-Pulse'']"

subsection \<open>The application state (version 2.0)\<close>

type_synonym key = "int \<times> nat \<times> nat"

record grid =
  tab_text :: string
  tab_id :: int
  y_values :: "string list"
  x_values :: "string list"

datatype dialog =
  ShowError string string
  | ShowWarning string string
  | ShowInfo string string

text \<open>
  \<open>notes_dict\<close> is the dictionary \<^verbatim>\<open>self.notes\<close>, in insertion order; \<open>buttons\<close> the keys of
  \<^verbatim>\<open>self.buttons\<close>, which no method ever removes; \<open>ranges\<close> the text of the start and
  end variables of each parameter (read at the \<^const>\<open>PARAMETERS\<close> only); \<open>notebook\<close> the tabs of the notebook, each with the grid built in it;
  \<open>global_entries\<close> the text of the entries, in the order they were created.
\<close>

record app =
  notes_dict :: "(key \<times> string) list"
  buttons :: "key set"
  x_axis_var :: string
  y_axis_var :: string
  qpulse_mode :: string
  ranges :: "string \<Rightarrow> string \<times> string"
  x_counts_var :: string
  y_counts_var :: string
  current_values_x :: "string list"
  current_values_y :: "string list"
  current_x_param :: string
  current_y_param :: string
  notebook :: "grid list"
  global_entries :: "(string \<times> string) list"
  x_count_label :: string
  y_count_label :: string

subsection \<open>Annotations: \<^verbatim>\<open>edit_note\<close> and \<^verbatim>\<open>clear_all\<close>\<close>

text \<open>
  \<^verbatim>\<open>edit_note(key)\<close>: \<open>new_text\<close> is what the dialog returned, \<open>None\<close> when it was
  cancelled. Only the colours of the button change in that case.
\<close>

definition edit_note :: "key \<Rightarrow> string option \<Rightarrow> app \<Rightarrow> app" where
  "edit_note k new_text s =
     (if k \<notin> buttons s then s
      else case new_text of
        None \<Rightarrow> s
      | Some t \<Rightarrow>
          (let t1 = strip t;
               t2 = (if MAX_NOTE_LENGTH < length t1 then take MAX_NOTE_LENGTH t1 else t1)
           in if t2 \<noteq> [] then s\<lparr>notes_dict := AList.update k t2 (notes_dict s)\<rparr>
              else s\<lparr>notes_dict := AList.delete k (notes_dict s)\<rparr>))"

text \<open>\<^verbatim>\<open>clear_all(silent)\<close>: \<open>answer\<close> is what \<^verbatim>\<open>askyesno\<close> returns when it is asked.\<close>

definition clear_all :: "bool \<Rightarrow> bool \<Rightarrow> app \<Rightarrow> app" where
  "clear_all silent answer s = (if \<not> silent \<and> \<not> answer then s else s\<lparr>notes_dict := []\<rparr>)"

subsection \<open>Grid logic: \<^verbatim>\<open>_generate_values\<close>, the grids and \<^verbatim>\<open>apply_ranges\<close>\<close>

text \<open>The formatting of one value in the list comprehensions of \<^verbatim>\<open>_generate_values\<close>.\<close>

definition format_value :: "pylib \<Rightarrow> string \<Rightarrow> rat \<Rightarrow> string" where
  "format_value L param v =
     (if param \<in> set [''Speed'', ''Power'', ''Passes'', ''Q-Pulse''] then str_int (py_round v)
      else if param = ''Line Interval'' then py_fmt L 4 v
      else if param = ''Frequency'' then py_fmt L 1 v
      else py_fmt L 2 v)"

definition format_values :: "pylib \<Rightarrow> string \<Rightarrow> rat list \<Rightarrow> string list" where
  "format_values L param vals = map (format_value L param) vals"

text \<open>
  \<^verbatim>\<open>_generate_values(param, counts)\<close>. The keys of \<^verbatim>\<open>self.ranges\<close> are the
  \<^const>\<open>PARAMETERS\<close> from the constructor on; any other parameter raises KeyError inside
  the \<^verbatim>\<open>try\<close>, which the bare \<^verbatim>\<open>except\<close> turns into the same ValueError as a
  text that \<^verbatim>\<open>float\<close> refuses.
\<close>

definition generate_values ::
  "pylib \<Rightarrow> (string \<Rightarrow> string \<times> string) \<Rightarrow> string \<Rightarrow> int \<Rightarrow> py_error + string list" where
  "generate_values L rng param counts =
     (if param \<notin> set PARAMETERS then Inl (ValueError (''Invalid range for '' @ param))
      else
        (case py_float L (fst (rng param)) of
           None \<Rightarrow> Inl (ValueError (''Invalid range for '' @ param))
         | Some start \<Rightarrow>
             (case py_float L (snd (rng param)) of
                None \<Rightarrow> Inl (ValueError (''Invalid range for '' @ param))
              | Some end \<Rightarrow>
                  if start = end then
                    (if param = ''Frequency''
                     then Inr (replicate (nat counts) (py_fmt L 1 start))
                     else Inr (replicate (nat counts) (py_str L start)))
                  else if counts - 1 = 0 then Inl (ZeroDivisionError ''float division by zero'')
                  else
                    (let step = (end - start) / of_int (counts - 1);
                         vals = map (\<lambda>i. start + of_nat i * step) [0..<nat counts]
                     in Inr (format_values L param vals)))))"

text \<open>\<^verbatim>\<open>_build_grid(parent, tab_id, y_values, x_values)\<close>: one button for each row and column.\<close>

definition grid_keys :: "int \<Rightarrow> string list \<Rightarrow> string list \<Rightarrow> key list" where
  "grid_keys tab ys xs =
     concat (map (\<lambda>r. map (\<lambda>c. (tab, r, c)) [0..<length xs]) [0..<length ys])"

definition build_grid :: "string \<Rightarrow> int \<Rightarrow> string list \<Rightarrow> string list \<Rightarrow> app \<Rightarrow> app" where
  "build_grid title tab ys xs s =
     s\<lparr>notebook := notebook s @ [\<lparr>tab_text = title, tab_id = tab, y_values = ys, x_values = xs\<rparr>],
       buttons := buttons s \<union> set (grid_keys tab ys xs)\<rparr>"

definition create_single_grid :: "app \<Rightarrow> app" where
  "create_single_grid s =
     build_grid (current_y_param s @ '' (Y) vs '' @ current_x_param s @ '' (X)'') 0
       (current_values_y s) (current_values_x s) s"

definition create_split_grids :: "app \<Rightarrow> app \<times> dialog list" where
  "create_split_grids s =
     (let total = length (current_values_x s)
      in if total < 4
         then (create_single_grid s,
               [ShowWarning ''Split Grids'' ''Too few values to split. Using single grid.''])
         else
           (let mid = (total + 1) div 2;
                grid1_x = take mid (current_values_x s);
                grid2_x = drop mid (current_values_x s);
                s1 = build_grid (''Part 1 ('' @ str_nat (length grid1_x) @ '' '' @ current_x_param s @ '')'')
                       1 (current_values_y s) grid1_x s;
                s2 = build_grid (''Part 2 ('' @ str_nat (length grid2_x) @ '' '' @ current_x_param s @ '')'')
                       2 (current_values_y s) grid2_x s1
            in (s2, [])))"

definition error_dialog :: "py_error \<Rightarrow> dialog" where
  "error_dialog e =
     (case e of ValueError m \<Rightarrow> ShowError ''Input Error'' m
              | ZeroDivisionError m \<Rightarrow> ShowError ''Error'' m
              | IndexError m \<Rightarrow> ShowError ''Error'' m)"

text \<open>
  \<^verbatim>\<open>apply_ranges(silent)\<close>. The assignments are made one after the other, as in the
  source: an exception leaves the state as it is at the statement that raised.
\<close>

definition apply_ranges :: "pylib \<Rightarrow> bool \<Rightarrow> bool \<Rightarrow> app \<Rightarrow> app \<times> dialog list" where
  "apply_ranges L silent answer s =
     (if \<not> silent \<and> \<not> answer then (s, [])
      else
        (let x_param = x_axis_var s; y_param = y_axis_var s
         in if x_param = y_param
            then (s, [error_dialog (ValueError ''X and Y axes cannot be the same parameter!'')])
            else
              (case py_int L (x_counts_var s) of
                 Inl m \<Rightarrow> (s, [error_dialog (ValueError m)])
               | Inr xc \<Rightarrow>
                   (case py_int L (y_counts_var s) of
                      Inl m \<Rightarrow> (s, [error_dialog (ValueError m)])
                    | Inr yc \<Rightarrow>
                        (case generate_values L (ranges s) x_param (max 2 xc) of
                           Inl e \<Rightarrow> (s, [error_dialog e])
                         | Inr xs \<Rightarrow>
                             (let s1 = s\<lparr>current_values_x := xs\<rparr>
                              in case generate_values L (ranges s1) y_param (max 2 yc) of
                                   Inl e \<Rightarrow> (s1, [error_dialog e])
                                 | Inr ys \<Rightarrow>
                                     (let s2 = s1\<lparr>current_values_y := ys,
                                                  current_x_param := x_param,
                                                  current_y_param := y_param,
                                                  x_count_label := str_nat (length xs) @ '' values'',
                                                  y_count_label := str_nat (length ys) @ '' values'',
                                                  notebook := []\<rparr>;
                                          (s3, ds) = (if qpulse_mode s2 = ''Split''
                                                      then create_split_grids s2
                                                      else (create_single_grid s2, []))
                                      in (clear_all True True s3, ds))))))))"

subsection \<open>Export: \<^verbatim>\<open>export_to_csv\<close>\<close>

text \<open>A dictionary built from a list of items: a later item replaces an earlier one.\<close>

definition dict_of :: "('k \<times> 'v) list \<Rightarrow> 'k \<rightharpoonup> 'v" where
  "dict_of kvs = foldl (\<lambda>m kv. m(fst kv \<mapsto> snd kv)) Map.empty kvs"

definition dict_get :: "('k \<rightharpoonup> 'v) \<Rightarrow> 'k \<Rightarrow> 'v \<Rightarrow> 'v" where
  "dict_get d k dflt = (case d k of None \<Rightarrow> dflt | Some v \<Rightarrow> v)"

text \<open>The local function \<^verbatim>\<open>fmt\<close> of the export.\<close>

definition fmt :: "pylib \<Rightarrow> string \<Rightarrow> string" where
  "fmt L val =
     (case py_float L val of
        None \<Rightarrow> val
      | Some f \<Rightarrow>
          if of_int \<lfloor>f\<rfloor> = f then str_int \<lfloor>f\<rfloor>
          else if \<bar>f\<bar> < 1 then py_fmt L 4 f
          else py_fmt L 1 f)"

definition fieldnames :: "string list" where
  "fieldnames = [''Note'', ''Tab'', ''X_Param'', ''X_Value'', ''Y_Param'', ''Y_Value'', ''Title'',
     ''Speed'', ''Power'', ''Frequency'', ''Line Interval'', ''Passes'', ''Q-Pulse'']"

text \<open>
  The body of the loop over \<^verbatim>\<open>sorted(self.notes.items())\<close>: the row of one note, its
  values in the order of \<^const>\<open>fieldnames\<close>. Both value sequences are indexed with the
  indices of the key, whatever the tab; an index out of range raises IndexError.
\<close>

definition export_row ::
  "pylib \<Rightarrow> app \<Rightarrow> (string \<rightharpoonup> string) \<Rightarrow> key \<times> string \<Rightarrow> py_error + string list" where
  "export_row L s globals_dict item =
     (case item of ((tab, r, c), note_text) \<Rightarrow>
        if length (current_values_x s) \<le> c then Inl (IndexError ''list index out of range'')
        else if length (current_values_y s) \<le> r then Inl (IndexError ''list index out of range'')
        else
          (let x_value = current_values_x s ! c;
               y_value = current_values_y s ! r;
               cs1 = (if current_x_param s \<in> dom globals_dict
                      then globals_dict(current_x_param s \<mapsto> x_value) else globals_dict);
               cell_settings = (if current_y_param s \<in> dom cs1
                      then cs1(current_y_param s \<mapsto> y_value) else cs1);
               dynamic_title = strip (note_text @ '' (S:'' @ fmt L (dict_get cell_settings ''Speed'' ''?'')
                  @ '' P:'' @ fmt L (dict_get cell_settings ''Power'' ''?'')
                  @ '' F:'' @ fmt L (dict_get cell_settings ''Frequency'' ''?'')
                  @ '' QP:'' @ fmt L (dict_get cell_settings ''Q-Pulse'' ''?'')
                  @ '' LI:'' @ fmt L (dict_get cell_settings ''Line Interval'' ''?'')
                  @ '' Pass:'' @ fmt L (dict_get cell_settings ''Passes'' ''?'') @ '')'')
           in Inr [note_text, str_int tab, current_x_param s, x_value, current_y_param s, y_value,
                   dynamic_title,
                   dict_get cell_settings ''Speed'' [],
                   dict_get cell_settings ''Power'' [],
                   dict_get cell_settings ''Frequency'' [],
                   dict_get cell_settings ''Line Interval'' [],
                   dict_get cell_settings ''Passes'' [],
                   dict_get cell_settings ''Q-Pulse'' []]))"

fun collect_rows :: "('a \<Rightarrow> py_error + 'b) \<Rightarrow> 'a list \<Rightarrow> py_error + 'b list" where
  "collect_rows f [] = Inr []"
| "collect_rows f (x # xs) =
     (case f x of
        Inl e \<Rightarrow> Inl e
      | Inr y \<Rightarrow> (case collect_rows f xs of Inl e \<Rightarrow> Inl e | Inr ys \<Rightarrow> Inr (y # ys)))"

definition globals_of :: "app \<Rightarrow> (string \<times> string) list" where
  "globals_of s = map (\<lambda>kv. (fst kv, strip (snd kv))) (global_entries s)"

definition export_rows :: "pylib \<Rightarrow> app \<Rightarrow> py_error + string list list" where
  "export_rows L s =
     collect_rows (export_row L s (dict_of (globals_of s))) (sort_key fst (notes_dict s))"

text \<open>
  The writer of the \<^verbatim>\<open>csv\<close> module with delimiter \<^verbatim>\<open>|\<close> and minimal quoting: a field
  is quoted when it holds the delimiter, the quote or a character of the line terminator.
\<close>

definition csv_special :: "char \<Rightarrow> bool" where
  "csv_special c = (c = CHR ''|'' \<or> c = CHR 0x22 \<or> c = CHR 0x0D \<or> c = CHR 0x0A)"

definition csv_field :: "string \<Rightarrow> string" where
  "csv_field f =
     (if list_ex csv_special f
      then CHR 0x22 # concat (map (\<lambda>c. if c = CHR 0x22 then [CHR 0x22, CHR 0x22] else [c]) f) @ [CHR 0x22]
      else f)"

fun join :: "string \<Rightarrow> string list \<Rightarrow> string" where
  "join sep [] = []"
| "join sep [x] = x"
| "join sep (x # y # zs) = x @ sep @ join sep (y # zs)"

definition csv_writerow :: "string list \<Rightarrow> string" where
  "csv_writerow fs = join ''|'' (map csv_field fs) @ [CHR 0x0D, CHR 0x0A]"

definition range_lines :: "app \<Rightarrow> string \<Rightarrow> string" where
  "range_lines s param =
     ''#   '' @ param @ ''_start: '' @ fst (ranges s param) @ [CHR 0x0A]
     @ ''#   '' @ param @ ''_end: '' @ snd (ranges s param) @ [CHR 0x0A]"

definition metadata_text :: "string \<Rightarrow> app \<Rightarrow> string" where
  "metadata_text today s =
     ''# Laser Test Grid Export - Metadata'' @ [CHR 0x0A]
     @ ''# Date: '' @ today @ [CHR 0x0A]
     @ ''# X_Axis: '' @ current_x_param s @ [CHR 0x0A]
     @ ''# Y_Axis: '' @ current_y_param s @ [CHR 0x0A]
     @ ''# Mode: '' @ (if qpulse_mode s = ''Split'' then ''Split'' else ''Single'') @ [CHR 0x0A]
     @ ''# X_counts: '' @ x_counts_var s @ [CHR 0x0A]
     @ ''# Y_counts: '' @ y_counts_var s @ [CHR 0x0A]
     @ [CHR 0x0A] @ ''# Parameter Ranges:'' @ [CHR 0x0A]
     @ concat (map (range_lines s) PARAMETERS)
     @ [CHR 0x0A] @ ''# Global Parameters:'' @ [CHR 0x0A]
     @ concat (map (\<lambda>kv. ''#   '' @ fst kv @ '': '' @ snd kv @ [CHR 0x0A]) (globals_of s))
     @ [CHR 0x0A]"

datatype export_result =
  Nothing_To_Export
  | Export_Cancelled
  | Export_Raised py_error
  | Export_Written string

text \<open>
  \<^verbatim>\<open>export_to_csv\<close>: \<open>chosen\<close> tells whether the file dialog returned a path, \<open>today\<close> is
  the date. The result is the text written to the file (the write itself is taken to
  succeed), with the dialogs shown. The loop that builds the rows is outside the
  \<^verbatim>\<open>try\<close>: its IndexError leaves the callback.
\<close>

definition export_to_csv :: "pylib \<Rightarrow> string \<Rightarrow> bool \<Rightarrow> app \<Rightarrow> export_result \<times> dialog list" where
  "export_to_csv L today chosen s =
     (if notes_dict s = [] then (Nothing_To_Export, [ShowInfo ''Export'' ''No notes to export.''])
      else if \<not> chosen then (Export_Cancelled, [])
      else case export_rows L s of
        Inl e \<Rightarrow> (Export_Raised e, [])
      | Inr rows \<Rightarrow>
          (Export_Written (metadata_text today s @ csv_writerow fieldnames
                           @ concat (map csv_writerow rows)),
           [ShowInfo ''Success'' (''Exported '' @ str_nat (length rows)
                                  @ '' rows + metadata (pipe delimited)'')]))"

subsection \<open>Import: \<^verbatim>\<open>load_from_csv\<close>\<close>

fun split_where :: "(char \<Rightarrow> bool) \<Rightarrow> string \<Rightarrow> string list" where
  "split_where P [] = [[]]"
| "split_where P (c # cs) =
     (if P c then [] # split_where P cs
      else (case split_where P cs of [] \<Rightarrow> [[c]] | l # ls \<Rightarrow> (c # l) # ls))"

text \<open>
  The lines of the file, each stripped as the loop does first. The file is read in text
  mode, where a line ends at LF, CR LF or CR; the model cuts at every CR and every LF.
  The cut only adds empty lines, which the loop ignores, and every line terminator is
  white space that the strip removes.
\<close>

definition line_break :: "char \<Rightarrow> bool" where
  "line_break c = (c = CHR 0x0A \<or> c = CHR 0x0D)"

definition file_lines :: "string \<Rightarrow> string list" where
  "file_lines text = map strip (split_where line_break text)"

definition startswith_hash :: "string \<Rightarrow> bool" where
  "startswith_hash l = (case l of [] \<Rightarrow> False | c # _ \<Rightarrow> c = CHR ''#'')"

text \<open>One pass of the loop over the lines: the metadata dictionary and the data lines.\<close>

definition classify_line ::
  "(string \<rightharpoonup> string) \<times> string list \<Rightarrow> string \<Rightarrow> (string \<rightharpoonup> string) \<times> string list" where
  "classify_line acc l =
     (case acc of (metadata, data_lines) \<Rightarrow>
        if startswith_hash l \<and> CHR '':'' \<in> set l then
          (let rest = tl l;
               k = takeWhile (\<lambda>c. c \<noteq> CHR '':'') rest;
               v = tl (dropWhile (\<lambda>c. c \<noteq> CHR '':'') rest)
           in (metadata(strip k \<mapsto> strip v), data_lines))
        else if l \<noteq> [] \<and> \<not> startswith_hash l then (metadata, data_lines @ [l])
        else (metadata, data_lines))"

definition read_file :: "string \<Rightarrow> (string \<rightharpoonup> string) \<times> string list" where
  "read_file text = foldl classify_line (Map.empty, []) (file_lines text)"

text \<open>
  The reader of the \<^verbatim>\<open>csv\<close> module with delimiter \<^verbatim>\<open>|\<close>, as the state machine of
  the module, on one line. A quoted field that is still open at the end of the line is
  closed there (the module would go on with the next line).
\<close>

datatype csv_state = START_FIELD | IN_FIELD | IN_QUOTED_FIELD | QUOTE_IN_QUOTED_FIELD

fun csv_parse :: "csv_state \<Rightarrow> string \<Rightarrow> string list \<Rightarrow> string \<Rightarrow> string list" where
  "csv_parse st cur fs [] = fs @ [cur]"
| "csv_parse START_FIELD cur fs (c # cs) =
     (if c = CHR 0x22 then csv_parse IN_QUOTED_FIELD [] fs cs
      else if c = CHR ''|'' then csv_parse START_FIELD [] (fs @ [[]]) cs
      else csv_parse IN_FIELD [c] fs cs)"
| "csv_parse IN_FIELD cur fs (c # cs) =
     (if c = CHR ''|'' then csv_parse START_FIELD [] (fs @ [cur]) cs
      else csv_parse IN_FIELD (cur @ [c]) fs cs)"
| "csv_parse IN_QUOTED_FIELD cur fs (c # cs) =
     (if c = CHR 0x22 then csv_parse QUOTE_IN_QUOTED_FIELD cur fs cs
      else csv_parse IN_QUOTED_FIELD (cur @ [c]) fs cs)"
| "csv_parse QUOTE_IN_QUOTED_FIELD cur fs (c # cs) =
     (if c = CHR 0x22 then csv_parse IN_QUOTED_FIELD (cur @ [CHR 0x22]) fs cs
      else if c = CHR ''|'' then csv_parse START_FIELD [] (fs @ [cur]) cs
      else csv_parse IN_FIELD (cur @ [c]) fs cs)"

definition csv_reader :: "string \<Rightarrow> string list" where
  "csv_reader l = csv_parse START_FIELD [] [] l"

text \<open>
  A row of \<^verbatim>\<open>csv.DictReader\<close>: the fields under the names of the header, and
  \<^verbatim>\<open>None\<close> under the names that the line has no field for.
\<close>

type_synonym row = "string \<rightharpoonup> string option"

definition dict_row :: "string list \<Rightarrow> string list \<Rightarrow> row" where
  "dict_row header fs =
     dict_of (zip header (map Some fs) @ map (\<lambda>k. (k, None)) (drop (length fs) header))"

definition dict_reader :: "string list \<Rightarrow> row list" where
  "dict_reader data_lines =
     (case data_lines of
        [] \<Rightarrow> []
      | h # ls \<Rightarrow> map (\<lambda>l. dict_row (csv_reader h) (csv_reader l)) ls)"

fun find_index :: "('a \<Rightarrow> bool) \<Rightarrow> 'a list \<Rightarrow> nat option" where
  "find_index P [] = None"
| "find_index P (x # xs) = (if P x then Some 0 else map_option Suc (find_index P xs))"

text \<open>\<^verbatim>\<open>str(x_val)\<close> of a field of a row, which is a string or \<^verbatim>\<open>None\<close>.\<close>

definition str_field :: "string option \<Rightarrow> string" where
  "str_field v = (case v of None \<Rightarrow> ''None'' | Some t \<Rightarrow> t)"

text \<open>
  The body of the loop over the rows, with the counter \<^verbatim>\<open>loaded\<close>. Every exception
  in it (a missing column, a field that is \<^verbatim>\<open>None\<close>, a tab that is no integer) is
  caught by the bare \<^verbatim>\<open>except\<close> and the row is passed over.
\<close>

definition restore_row :: "pylib \<Rightarrow> app \<times> nat \<Rightarrow> row \<Rightarrow> app \<times> nat" where
  "restore_row L acc rw =
     (case acc of (s, loaded) \<Rightarrow>
        (case (rw ''X_Param'', rw ''Y_Param'') of
           (Some xp, Some yp) \<Rightarrow>
             if xp \<noteq> Some (current_x_param s) \<or> yp \<noteq> Some (current_y_param s) then (s, loaded)
             else
               (case (rw ''X_Value'', rw ''Y_Value'', dict_get rw ''Note'' (Some []),
                      dict_get rw ''Tab'' (Some ''0'')) of
                  (Some x_val, Some y_val, Some note_field, Some tab_field) \<Rightarrow>
                    (case py_int L tab_field of
                       Inl _ \<Rightarrow> (s, loaded)
                     | Inr tab \<Rightarrow>
                         (case (find_index (\<lambda>v. v = str_field y_val) (current_values_y s),
                                find_index (\<lambda>v. v = str_field x_val) (current_values_x s)) of
                            (Some r, Some c) \<Rightarrow>
                              if (tab, r, c) \<in> buttons s
                              then (s\<lparr>notes_dict := AList.update (tab, r, c) (strip note_field)
                                                        (notes_dict s)\<rparr>, loaded + 1)
                              else (s, loaded)
                          | _ \<Rightarrow> (s, loaded)))
                | _ \<Rightarrow> (s, loaded))
         | _ \<Rightarrow> (s, loaded)))"

definition set_vars :: "(string \<rightharpoonup> string) \<Rightarrow> app \<Rightarrow> app" where
  "set_vars md s =
     s\<lparr>x_axis_var := dict_get md ''X_Axis'' (x_axis_var s),
       y_axis_var := dict_get md ''Y_Axis'' (y_axis_var s),
       qpulse_mode := (case md ''Mode'' of
                         None \<Rightarrow> qpulse_mode s
                       | Some m \<Rightarrow> if m = ''Split'' then ''Split'' else ''Single''),
       x_counts_var := dict_get md ''X_counts'' (x_counts_var s),
       y_counts_var := dict_get md ''Y_counts'' (y_counts_var s),
       ranges := (\<lambda>param. if param \<in> set PARAMETERS
                    then (dict_get md (param @ ''_start'') (fst (ranges s param)),
                          dict_get md (param @ ''_end'') (snd (ranges s param)))
                    else ranges s param)\<rparr>"

text \<open>
  \<^verbatim>\<open>_update_global_field_states\<close> runs at every write of an axis variable and at the
  end of a successful \<^verbatim>\<open>apply_ranges\<close>: the entry of a parameter is disabled exactly
  when the parameter is one of the two axis variables. A disabled entry ignores
  \<^verbatim>\<open>delete\<close> and \<^verbatim>\<open>insert\<close>.
\<close>

definition entry_disabled :: "app \<Rightarrow> string \<Rightarrow> bool" where
  "entry_disabled s param = (param \<noteq> ''Title'' \<and> (param = x_axis_var s \<or> param = y_axis_var s))"

definition restore_global :: "(string \<rightharpoonup> string) \<Rightarrow> app \<Rightarrow> string \<Rightarrow> app" where
  "restore_global md s param =
     (case md param of
        None \<Rightarrow> s
      | Some v \<Rightarrow>
          if param \<in> fst ` set (global_entries s) \<and> \<not> entry_disabled s param
          then s\<lparr>global_entries := AList.update param v (global_entries s)\<rparr>
          else s)"

definition load_from_csv :: "pylib \<Rightarrow> string \<Rightarrow> app \<Rightarrow> app \<times> dialog list" where
  "load_from_csv L text s =
     (case read_file text of (metadata, data_lines) \<Rightarrow>
        (case apply_ranges L True True (set_vars metadata s) of (s1, ds) \<Rightarrow>
           (let s2 = foldl (restore_global metadata) s1 (PARAMETERS @ [''Title''])
            in if data_lines = []
               then (s2, ds @ [ShowInfo ''Load'' ''No data rows found, but metadata restored.''])
               else
                 (case foldl (restore_row L) (clear_all True True s2, 0) (dict_reader data_lines) of
                    (s3, loaded) \<Rightarrow>
                      (s3, ds @ [ShowInfo ''Load Complete''
                                   (''Loaded '' @ str_nat loaded @ [CHR 0x0A] @ ''Metadata restored.'')])))))"

subsection \<open>The constructor\<close>

definition default_ranges :: "string \<Rightarrow> string \<times> string" where
  "default_ranges param =
     (dict_get (dict_of [(''Speed'', ''4000''), (''Power'', ''90''), (''Frequency'', ''3800.0''),
                         (''Line Interval'', ''0.0010''), (''Passes'', ''1''), (''Q-Pulse'', ''150'')])
        param ''1'',
      dict_get (dict_of [(''Speed'', ''1000''), (''Power'', ''10''), (''Frequency'', ''100.0''),
                         (''Line Interval'', ''0.020''), (''Passes'', ''10''), (''Q-Pulse'', ''200'')])
        param ''200'')"

definition new_app :: "string \<Rightarrow> app" where
  "new_app today =
     \<lparr>notes_dict = [], buttons = {},
      x_axis_var = ''Q-Pulse'', y_axis_var = ''Frequency'', qpulse_mode = ''Single'',
      ranges = default_ranges,
      x_counts_var = ''20'', y_counts_var = ''20'',
      current_values_x = [], current_values_y = [],
      current_x_param = [], current_y_param = [],
      notebook = [],
      global_entries = [(''Title'', ''Laser Test - '' @ today), (''Speed'', ''3000''),
        (''Power'', ''20''), (''Frequency'', ''1000''), (''Line Interval'', ''0.0250''),
        (''Passes'', ''10''), (''Q-Pulse'', ''200'')],
      x_count_label = ''0 values'', y_count_label = ''0 values''\<rparr>"

definition init_app :: "pylib \<Rightarrow> string \<Rightarrow> app" where
  "init_app L today = fst (apply_ranges L True True (new_app today))"

subsection \<open>Version 1.0: \<^verbatim>\<open>edit_note\<close>\<close>

definition edit_note_v1 :: "key \<Rightarrow> string option \<Rightarrow> (key \<times> string) list \<Rightarrow> (key \<times> string) list" where
  "edit_note_v1 k new_text nts =
     (case new_text of
        None \<Rightarrow> nts
      | Some t \<Rightarrow>
          (let t1 = take 12 (strip t)
           in if t1 \<noteq> [] then AList.update k t1 nts else AList.delete k nts))"

subsection \<open>An instance of the built-ins on plain decimal text\<close>

text \<open>
  For the evaluation of the model on concrete inputs: \<^verbatim>\<open>float\<close> and \<^verbatim>\<open>int\<close> on
  an optional sign and decimal digits, \<^verbatim>\<open>str\<close> and the fixed-point format on the
  exact value.
\<close>

definition is_digit :: "char \<Rightarrow> bool" where
  "is_digit c = (48 \<le> (of_char c :: int) \<and> (of_char c :: int) \<le> 57)"

definition digits_value :: "string \<Rightarrow> int" where
  "digits_value ds = foldl (\<lambda>a c. 10 * a + (of_char c - 48)) 0 ds"

definition split_sign :: "string \<Rightarrow> bool \<times> string" where
  "split_sign t =
     (case t of
        [] \<Rightarrow> (False, [])
      | c # r \<Rightarrow> if c = CHR ''-'' then (True, r) else if c = CHR ''+'' then (False, r) else (False, t))"

definition dec_int :: "string \<Rightarrow> string + int" where
  "dec_int s =
     (case split_sign (strip s) of (neg, ds) \<Rightarrow>
        if ds \<noteq> [] \<and> list_all is_digit ds
        then Inr (if neg then - digits_value ds else digits_value ds)
        else Inl (''invalid literal for int() with base 10: '' @ [CHR 0x27] @ s @ [CHR 0x27]))"

definition dec_float :: "string \<Rightarrow> rat option" where
  "dec_float s =
     (case split_sign (strip s) of (neg, body) \<Rightarrow>
        (let ip = takeWhile is_digit body;
             rest = dropWhile is_digit body;
             frac = (case rest of
                       [] \<Rightarrow> Some []
                     | c # r \<Rightarrow> if c = CHR ''.'' \<and> list_all is_digit r then Some r else None)
         in case frac of
              None \<Rightarrow> None
            | Some fp \<Rightarrow>
                if ip = [] \<and> fp = [] then None
                else
                  (let v = of_int (digits_value ip) + of_int (digits_value fp) / 10 ^ length fp
                   in Some (if neg then - v else v))))"

definition dec_fmt :: "nat \<Rightarrow> rat \<Rightarrow> string" where
  "dec_fmt k v =
     (let n = py_round (\<bar>v\<bar> * 10 ^ k);
          fs = str_digits (n mod 10 ^ k)
      in (if v < 0 then ''-'' else []) @ str_digits (n div 10 ^ k)
         @ (if k = 0 then [] else CHR ''.'' # replicate (k - length fs) CHR ''0'' @ fs))"

definition dec_str :: "rat \<Rightarrow> string" where
  "dec_str v =
     (if of_int \<lfloor>v\<rfloor> = v then str_int \<lfloor>v\<rfloor> @ ''.0''
      else case find (\<lambda>k. of_int \<lfloor>v * 10 ^ k\<rfloor> = v * 10 ^ k) [1..<18] of
             None \<Rightarrow> dec_fmt 17 v
           | Some k \<Rightarrow> dec_fmt k v)"

definition declib :: pylib where
  "declib = \<lparr>py_float = dec_float, py_int = dec_int, py_str = dec_str, py_fmt = dec_fmt\<rparr>"

subsection \<open>Tolerant matching and the bound on notes\<close>

text \<open>
  \<^verbatim>\<open>round(v, 1)\<close> of a float, and the matching of version 1.0 on the frequency
  (\<^verbatim>\<open>round(float(f), 1) == saved_freq\<close>), which is the tolerant matching that the
  specification describes: both sides parsed as numbers and compared after rounding to
  one decimal. A text that \<^verbatim>\<open>float\<close> refuses ends the search without an index.
\<close>

definition py_round1 :: "rat \<Rightarrow> rat" where
  "py_round1 v = of_int (py_round (v * 10)) / 10"

fun find_rounded :: "pylib \<Rightarrow> rat \<Rightarrow> string list \<Rightarrow> nat option" where
  "find_rounded L saved [] = None"
| "find_rounded L saved (f # fs) =
     (case py_float L f of
        None \<Rightarrow> None
      | Some g \<Rightarrow> if py_round1 g = saved then Some 0 else map_option Suc (find_rounded L saved fs))"

definition tolerant_index :: "pylib \<Rightarrow> string list \<Rightarrow> string \<Rightarrow> nat option" where
  "tolerant_index L labels freq_str =
     (case py_float L freq_str of
        None \<Rightarrow> None
      | Some v \<Rightarrow> find_rounded L (py_round1 v) labels)"


subsection \<open>Notions for the round trip\<close>

text \<open>
  A text without line break, a field that the writer does not quote, and a text that the
  strip leaves as it is.
\<close>

definition one_line :: "string \<Rightarrow> bool" where
  "one_line v = (\<forall>c\<in>set v. \<not> line_break c)"

definition plain_field :: "string \<Rightarrow> bool" where
  "plain_field f = (\<not> list_ex csv_special f)"

definition clean_text :: "string \<Rightarrow> bool" where
  "clean_text v = (strip v = v \<and> one_line v)"

text \<open>
  The cells of the grids that \<^verbatim>\<open>apply_ranges\<close> builds from the current value sequences:
  the two halves in split mode when there are at least four x values, one grid otherwise.
\<close>

definition grid_cells :: "app \<Rightarrow> key set" where
  "grid_cells s =
     (let xs = current_values_x s; ys = current_values_y s; mid = (length xs + 1) div 2
      in if qpulse_mode s = ''Split'' \<and> 4 \<le> length xs
         then set (grid_keys 1 ys (take mid xs)) \<union> set (grid_keys 2 ys (drop mid xs))
         else set (grid_keys 0 ys xs))"

text \<open>
  A state whose grid is the one of its variables: the last \<^verbatim>\<open>apply_ranges\<close> succeeded
  and no axis, count, mode or range variable was edited since.
\<close>

definition applied :: "pylib \<Rightarrow> app \<Rightarrow> bool" where
  "applied L s =
     (x_axis_var s \<noteq> y_axis_var s
      \<and> current_x_param s = x_axis_var s \<and> current_y_param s = y_axis_var s
      \<and> (case (py_int L (x_counts_var s), py_int L (y_counts_var s)) of
            (Inr xc, Inr yc) \<Rightarrow>
              generate_values L (ranges s) (x_axis_var s) (max 2 xc) = Inr (current_values_x s)
              \<and> generate_values L (ranges s) (y_axis_var s) (max 2 yc) = Inr (current_values_y s)
          | _ \<Rightarrow> False))"

text \<open>A line \<^verbatim>\<open>#key:value\<close> of the metadata, and a text as lines that end with LF.\<close>

definition meta_line :: "string \<times> string \<Rightarrow> string" where
  "meta_line kv = CHR ''#'' # fst kv @ CHR '':'' # snd kv"

definition unlines :: "string list \<Rightarrow> string" where
  "unlines ls = concat (map (\<lambda>l. l @ [CHR 0x0A]) ls)"

text \<open>The keys and values of the metadata lines that the export writes, in its order.\<close>

definition head_kvs :: "string \<Rightarrow> app \<Rightarrow> (string \<times> string) list" where
  "head_kvs today s =
     [('' Date'', '' '' @ today),
      ('' X_Axis'', '' '' @ current_x_param s),
      ('' Y_Axis'', '' '' @ current_y_param s),
      ('' Mode'', '' '' @ (if qpulse_mode s = ''Split'' then ''Split'' else ''Single'')),
      ('' X_counts'', '' '' @ x_counts_var s),
      ('' Y_counts'', '' '' @ y_counts_var s)]"

definition range_kvs :: "app \<Rightarrow> (string \<times> string) list" where
  "range_kvs s =
     ('' Parameter Ranges'', []) #
     concat (map (\<lambda>p. [(''   '' @ p @ ''_start'', '' '' @ fst (ranges s p)),
                        (''   '' @ p @ ''_end'', '' '' @ snd (ranges s p))]) PARAMETERS)"

definition global_kvs :: "app \<Rightarrow> (string \<times> string) list" where
  "global_kvs s =
     ('' Global Parameters'', []) # map (\<lambda>kv. (''   '' @ fst kv, '' '' @ snd kv)) (globals_of s)"

text \<open>
  A state whose texts survive the metadata lines: the date, the counts and the range
  texts have no line break (and the strip leaves counts and ranges as they are), the
  entries are those that the constructor creates and their texts have no line break.
\<close>

definition clean_state :: "string \<Rightarrow> app \<Rightarrow> bool" where
  "clean_state today s =
     (one_line today
      \<and> clean_text (x_counts_var s) \<and> clean_text (y_counts_var s)
      \<and> (\<forall>p\<in>set PARAMETERS. clean_text (fst (ranges s p)) \<and> clean_text (snd (ranges s p)))
      \<and> fst ` set (global_entries s) \<subseteq> set (''Title'' # PARAMETERS)
      \<and> (\<forall>v\<in>snd ` set (global_entries s). one_line v))"

abbreviation (input) meta_update :: "(string \<rightharpoonup> string) \<Rightarrow> string \<times> string \<Rightarrow> (string \<rightharpoonup> string)" where
  "meta_update \<equiv> (\<lambda>m kv. m(strip (fst kv) \<mapsto> strip (snd kv)))"

text \<open>What the import needs of the row of a note to store it again under its cell.\<close>

definition row_matches :: "pylib \<Rightarrow> app \<Rightarrow> key \<times> string \<Rightarrow> row \<Rightarrow> bool" where
  "row_matches L s item rw =
     (case item of ((tab, r, c), t) \<Rightarrow>
        (\<exists>t'. strip t' = strip t \<and> rw ''Note'' = Some (Some t'))
        \<and> rw ''Tab'' = Some (Some (str_int tab))
        \<and> rw ''X_Param'' = Some (Some (current_x_param s))
        \<and> rw ''Y_Param'' = Some (Some (current_y_param s))
        \<and> rw ''X_Value'' = Some (Some (current_values_x s ! c))
        \<and> rw ''Y_Value'' = Some (Some (current_values_y s ! r))
        \<and> (tab, r, c) \<in> buttons s
        \<and> find_index (\<lambda>v. v = current_values_y s ! r) (current_values_y s) = Some r
        \<and> find_index (\<lambda>v. v = current_values_x s ! c) (current_values_x s) = Some c
        \<and> py_int L (str_int tab) = Inr tab)"

subsection \<open>Example inputs\<close>

text \<open>
  The value sequences of the default ranges (Q-Pulse from 150 to 200, Frequency from
  3800.0 to 100.0, twenty values each), and a new application switched to split mode.
\<close>

definition default_x :: "string list" where
  "default_x = [''150'', ''153'', ''155'', ''158'', ''161'', ''163'', ''166'', ''168'', ''171'', ''174'',
     ''176'', ''179'', ''182'', ''184'', ''187'', ''189'', ''192'', ''195'', ''197'', ''200'']"

definition default_y :: "string list" where
  "default_y = [''3800.0'', ''3605.3'', ''3410.5'', ''3215.8'', ''3021.1'', ''2826.3'', ''2631.6'',
     ''2436.8'', ''2242.1'', ''2047.4'', ''1852.6'', ''1657.9'', ''1463.2'', ''1268.4'', ''1073.7'',
     ''878.9'', ''684.2'', ''489.5'', ''294.7'', ''100.0'']"

definition split_app :: app where
  "split_app = (new_app ''2026-01-01'')\<lparr>qpulse_mode := ''Split''\<rparr>"

definition bad_range_app :: app where
  "bad_range_app =
     (init_app declib ''2026-01-01'')
       \<lparr>ranges := (default_ranges(''Q-Pulse'' := (''100'', ''200''), ''Frequency'' := (''abc'', ''100.0'')))\<rparr>"

definition wide_x :: "string list" where
  "wide_x = [''100'', ''105'', ''111'', ''116'', ''121'', ''126'', ''132'', ''137'', ''142'', ''147'',
     ''153'', ''158'', ''163'', ''168'', ''174'', ''179'', ''184'', ''189'', ''195'', ''200'']"

definition drifted_row :: row where
  "drifted_row = dict_row fieldnames [''gold'', ''0'', ''Q-Pulse'', ''150.0'', ''Frequency'', ''3800.00'',
     ''gold (S:3000 P:20 F:3800 QP:150 LI:0.0250 Pass:10)'', ''3000'', ''20'', ''3800.00'', ''0.0250'',
     ''10'', ''150.0'']"


text \<open>The text that an export wrote to the file.\<close>

definition written :: "export_result \<times> dialog list \<Rightarrow> string" where
  "written res = (case fst res of Export_Written text \<Rightarrow> text | _ \<Rightarrow> [])"

text \<open>
  The default grid in split mode with the note \<^verbatim>\<open>gold\<close> on the cell \<open>(1, 2, 5)\<close>, and the
  row that the export builds for it.
\<close>

definition gold_app :: app where
  "gold_app = edit_note (1, 2, 5) (Some ''gold'') (fst (apply_ranges declib True True split_app))"

definition gold_rows :: "string list list" where
  "gold_rows = [[''gold'', ''1'', ''Q-Pulse'', ''163'', ''Frequency'', ''3410.5'',
     ''gold (S:3000 P:20 F:3410.5 QP:163 LI:0.0250 Pass:10)'', ''3000'', ''20'', ''3410.5'', ''0.0250'',
     ''10'', ''163'']]"

text \<open>
  A single grid of twenty Q-Pulse values from 150 to 152, which are \<^verbatim>\<open>150\<close> five times,
  \<^verbatim>\<open>151\<close> ten times and \<^verbatim>\<open>152\<close> five times, with the notes \<^verbatim>\<open>a\<close> and \<^verbatim>\<open>b\<close> on the
  columns 3 and 4 of the first row, and the rows that the export builds for them.
\<close>

definition narrow_x :: "string list" where
  "narrow_x = [''150'', ''150'', ''150'', ''150'', ''150'', ''151'', ''151'', ''151'', ''151'', ''151'',
     ''151'', ''151'', ''151'', ''151'', ''151'', ''152'', ''152'', ''152'', ''152'', ''152'']"

definition narrow_app :: app where
  "narrow_app =
     edit_note (0, 0, 4) (Some ''b'')
       (edit_note (0, 0, 3) (Some ''a'')
          (fst (apply_ranges declib True True
             ((new_app ''2026-01-01'')\<lparr>ranges := default_ranges(''Q-Pulse'' := (''150'', ''152''))\<rparr>))))"

definition narrow_rows :: "string list list" where
  "narrow_rows =
     [[''a'', ''0'', ''Q-Pulse'', ''150'', ''Frequency'', ''3800.0'',
       ''a (S:3000 P:20 F:3800 QP:150 LI:0.0250 Pass:10)'', ''3000'', ''20'', ''3800.0'', ''0.0250'',
       ''10'', ''150''],
      [''b'', ''0'', ''Q-Pulse'', ''150'', ''Frequency'', ''3800.0'',
       ''b (S:3000 P:20 F:3800 QP:150 LI:0.0250 Pass:10)'', ''3000'', ''20'', ''3800.0'', ''0.0250'',
       ''10'', ''150'']]"

section \<open>Properties\<close>

subsection \<open>Axis conflict\<close>

text \<open>
  C4: when the x-axis parameter equals the y-axis parameter, an \<^verbatim>\<open>apply_ranges\<close> that
  is carried out (silent, or confirmed by the operator) reports the axis conflict and
  returns the state it was given: value sequences, current axis parameters, notes and
  everything else are the prior ones.
\<close>

theorem apply_ranges_axis_conflict:
  assumes "x_axis_var s = y_axis_var s" and "silent \<or> answer"
  shows "apply_ranges L silent answer s =
           (s, [ShowError ''Input Error'' ''X and Y axes cannot be the same parameter!''])"
  using assms by (auto simp: apply_ranges_def error_dialog_def)

theorem apply_ranges_axis_conflict_witness:
  "(let s = (new_app ''2026-01-01'')\<lparr>y_axis_var := ''Q-Pulse''\<rparr>
    in x_axis_var s = y_axis_var s \<and>
       apply_ranges declib True False s =
         (s, [ShowError ''Input Error'' ''X and Y axes cannot be the same parameter!'']))"
  using apply_ranges_axis_conflict
    [of "(new_app ''2026-01-01'')\<lparr>y_axis_var := ''Q-Pulse''\<rparr>" True False declib]
  by (simp add: new_app_def Let_def)

subsection \<open>Setting a note\<close>

text \<open>
  C8: \<^verbatim>\<open>edit_note\<close> on a cell of the grid with a text from the dialog strips the text
  and cuts it to \<^const>\<open>MAX_NOTE_LENGTH\<close> characters; when the stripped text is empty the
  entry of the cell is removed, otherwise the cut text is stored under the cell, in place
  of any earlier note; nothing else in the state changes. Version 1.0 does the same with
  a limit of 12 characters.
\<close>

theorem edit_note_sets_trimmed:
  assumes "k \<in> buttons s"
  shows "map_of (notes_dict (edit_note k (Some text) s)) =
           (map_of (notes_dict s))
             (k := if strip text = [] then None else Some (take MAX_NOTE_LENGTH (strip text)))
         \<and> edit_note k (Some text) s = s\<lparr>notes_dict := notes_dict (edit_note k (Some text) s)\<rparr>
         \<and> map_of (edit_note_v1 k (Some text) nts) =
           (map_of nts)(k := if strip text = [] then None else Some (take 12 (strip text)))"
  using assms
  by (auto simp: edit_note_def edit_note_v1_def Let_def update_conv' delete_conv' MAX_NOTE_LENGTH_def)

theorem edit_note_sets_trimmed_witness:
  "(let s = (new_app ''2026-01-01'')\<lparr>buttons := {(0, 0, 0)}\<rparr>
    in (0, 0, 0) \<in> buttons s \<and>
       map_of (notes_dict (edit_note (0, 0, 0) (Some ''  gold '') s)) (0, 0, 0) = Some ''gold'' \<and>
       map_of (notes_dict (edit_note (0, 0, 0) (Some ''   '') s)) (0, 0, 0) = None)"
proof -
  let ?s = "(new_app ''2026-01-01'')\<lparr>buttons := {(0, 0, 0)}\<rparr>"
  have b: "(0, 0, 0) \<in> buttons ?s" by simp
  have e: "strip ''  gold '' = ''gold''" "strip ''   '' = []" by code_simp+
  from edit_note_sets_trimmed [OF b, of "''  gold ''" "[]"]
       edit_note_sets_trimmed [OF b, of "''   ''" "[]"] e
  show ?thesis by (simp add: MAX_NOTE_LENGTH_def Let_def)
qed

subsection \<open>The default grid\<close>

lemma gen_default_x: "generate_values declib default_ranges ''Q-Pulse'' 20 = Inr default_x"
  unfolding default_x_def by code_simp

lemma gen_default_y: "generate_values declib default_ranges ''Frequency'' 20 = Inr default_y"
  unfolding default_y_def by code_simp

lemma dec_int_20: "py_int declib ''20'' = Inr 20"
  by code_simp

lemma length_default [simp]: "length default_x = 20" "length default_y = 20"
  by (simp_all add: default_x_def default_y_def)

lemma apply_split_app:
  "snd (apply_ranges declib True True split_app) = []"
  "current_values_x (fst (apply_ranges declib True True split_app)) = default_x"
  "current_values_y (fst (apply_ranges declib True True split_app)) = default_y"
  "map x_values (notebook (fst (apply_ranges declib True True split_app))) =
     [take 10 default_x, drop 10 default_x]"
  by (simp_all add: apply_ranges_def split_app_def new_app_def dec_int_20 gen_default_x gen_default_y
       create_split_grids_def build_grid_def clear_all_def Let_def)

subsection \<open>Splitting the x sequence\<close>




subsection \<open>Cells, indices and rows\<close>

lemma grid_keys_iff:
  "(t, r, c) \<in> set (grid_keys tab ys xs) \<longleftrightarrow> t = tab \<and> r < length ys \<and> c < length xs"
  by (fastforce simp: grid_keys_def)

lemma find_index_Some_iff:
  "find_index P xs = Some i \<longleftrightarrow> i < length xs \<and> P (xs ! i) \<and> (\<forall>j<i. \<not> P (xs ! j))"
proof (induction xs arbitrary: i)
  case Nil
  then show ?case by simp
next
  case (Cons x xs)
  show ?case
  proof (cases "P x")
    case True
    then show ?thesis by (cases i) auto
  next
    case False
    show ?thesis
    proof (cases i)
      case 0
      with False show ?thesis by auto
    next
      case (Suc k)
      with False Cons.IH [of k] show ?thesis
        by (auto simp: less_Suc_eq_0_disj)
    qed
  qed
qed

lemma find_index_None_iff: "find_index P xs = None \<longleftrightarrow> (\<forall>x\<in>set xs. \<not> P x)"
  by (induction xs) auto

lemma apply_new_app:
  "snd (apply_ranges declib True True (new_app d)) = []"
  "current_values_x (init_app declib d) = default_x"
  "current_values_y (init_app declib d) = default_y"
  "current_x_param (init_app declib d) = ''Q-Pulse''"
  "current_y_param (init_app declib d) = ''Frequency''"
  "buttons (init_app declib d) = set (grid_keys 0 default_y default_x)"
  "notes_dict (init_app declib d) = []"
  by (simp_all add: init_app_def apply_ranges_def new_app_def dec_int_20 gen_default_x gen_default_y
       create_single_grid_def build_grid_def clear_all_def Let_def)

lemma row_fields:
  "dict_row fieldnames [a0, a1, a2, a3, a4, a5, a6, a7, a8, a9, a10, a11, a12] ''Note'' = Some (Some a0)"
  "dict_row fieldnames [a0, a1, a2, a3, a4, a5, a6, a7, a8, a9, a10, a11, a12] ''Tab'' = Some (Some a1)"
  "dict_row fieldnames [a0, a1, a2, a3, a4, a5, a6, a7, a8, a9, a10, a11, a12] ''X_Param'' = Some (Some a2)"
  "dict_row fieldnames [a0, a1, a2, a3, a4, a5, a6, a7, a8, a9, a10, a11, a12] ''X_Value'' = Some (Some a3)"
  "dict_row fieldnames [a0, a1, a2, a3, a4, a5, a6, a7, a8, a9, a10, a11, a12] ''Y_Param'' = Some (Some a4)"
  "dict_row fieldnames [a0, a1, a2, a3, a4, a5, a6, a7, a8, a9, a10, a11, a12] ''Y_Value'' = Some (Some a5)"
  by (simp_all add: dict_row_def dict_of_def fieldnames_def)


subsection \<open>Export in split mode\<close>





subsection \<open>Locating a row of the file\<close>

text \<open>
  C2, as amended: for a data row that has the six columns and whose tab is an integer,
  the import of version 2.0 locates the row and the column as the first indices at
  which the generated value string is equal, as a string, to the stored y and x value
  (numbers are not parsed and nothing is rounded); the note is stored when both indices
  exist, the axis parameters of the row are the current ones and the cell has a button.
  When the axis parameters of the row are not the current ones, or a stored value is not
  among the generated strings, the row is passed over: the state and the counter are
  unchanged and the loop goes on with the remaining rows.
\<close>

theorem restore_row_exact_match:
  assumes "rw ''X_Param'' = Some (Some xp)" and "rw ''Y_Param'' = Some (Some yp)"
    and "rw ''X_Value'' = Some (Some x_val)" and "rw ''Y_Value'' = Some (Some y_val)"
    and "rw ''Note'' = Some (Some note_text)" and "rw ''Tab'' = Some (Some tab_field)"
    and "py_int L tab_field = Inr tab"
  shows "restore_row L (s, n) rw =
           (case (find_index (\<lambda>v. v = y_val) (current_values_y s),
                  find_index (\<lambda>v. v = x_val) (current_values_x s)) of
              (Some r, Some c) \<Rightarrow>
                if xp = current_x_param s \<and> yp = current_y_param s \<and> (tab, r, c) \<in> buttons s
                then (s\<lparr>notes_dict := AList.update (tab, r, c) (strip note_text) (notes_dict s)\<rparr>,
                      n + 1)
                else (s, n)
            | _ \<Rightarrow> (s, n))
         \<and> (find_index (\<lambda>v. v = x_val) (current_values_x s) = Some c \<longleftrightarrow>
               c < length (current_values_x s) \<and> current_values_x s ! c = x_val
               \<and> (\<forall>j<c. current_values_x s ! j \<noteq> x_val))
         \<and> (find_index (\<lambda>v. v = y_val) (current_values_y s) = Some r \<longleftrightarrow>
               r < length (current_values_y s) \<and> current_values_y s ! r = y_val
               \<and> (\<forall>j<r. current_values_y s ! j \<noteq> y_val))
         \<and> (xp \<noteq> current_x_param s \<or> yp \<noteq> current_y_param s
               \<or> x_val \<notin> set (current_values_x s) \<or> y_val \<notin> set (current_values_y s)
             \<longrightarrow> restore_row L (s, n) rw = (s, n)
                 \<and> foldl (restore_row L) (s, n) (rw # rws) = foldl (restore_row L) (s, n) rws)"
proof -
  have 1: "restore_row L (s, n) rw =
           (case (find_index (\<lambda>v. v = y_val) (current_values_y s),
                  find_index (\<lambda>v. v = x_val) (current_values_x s)) of
              (Some r, Some c) \<Rightarrow>
                if xp = current_x_param s \<and> yp = current_y_param s \<and> (tab, r, c) \<in> buttons s
                then (s\<lparr>notes_dict := AList.update (tab, r, c) (strip note_text) (notes_dict s)\<rparr>,
                      n + 1)
                else (s, n)
            | _ \<Rightarrow> (s, n))"
    using assms
    by (auto simp: restore_row_def dict_get_def str_field_def split: option.splits)
  have 2: "restore_row L (s, n) rw = (s, n)"
    if "xp \<noteq> current_x_param s \<or> yp \<noteq> current_y_param s
         \<or> x_val \<notin> set (current_values_x s) \<or> y_val \<notin> set (current_values_y s)"
  proof -
    have "x_val \<notin> set (current_values_x s)
        \<Longrightarrow> find_index (\<lambda>v. v = x_val) (current_values_x s) = None"
      and "y_val \<notin> set (current_values_y s)
        \<Longrightarrow> find_index (\<lambda>v. v = y_val) (current_values_y s) = None"
      by (auto simp: find_index_None_iff)
    with that show ?thesis
      unfolding 1 by (auto split: option.splits)
  qed
  show ?thesis
    using 1 2 by (simp add: find_index_Some_iff)
qed

theorem restore_row_exact_match_witness:
  "restore_row declib (init_app declib ''2026-01-01'', 0)
     (dict_row fieldnames [''gold'', ''0'', ''Q-Pulse'', ''163'', ''Frequency'', ''3410.5'', [], [], [], [],
        [], [], []]) =
     ((init_app declib ''2026-01-01'')\<lparr>notes_dict := [((0, 2, 5), ''gold'')]\<rparr>, 1)
   \<and> restore_row declib (init_app declib ''2026-01-01'', 0)
     (dict_row fieldnames [''gold'', ''0'', ''Speed'', ''163'', ''Frequency'', ''3410.5'', [], [], [], [],
        [], [], []]) = (init_app declib ''2026-01-01'', 0)"
proof -
  let ?s = "init_app declib ''2026-01-01''"
  have t: "py_int declib ''0'' = Inr 0" by code_simp
  have g: "strip ''gold'' = ''gold''" by code_simp
  have y: "find_index (\<lambda>v. v = ''3410.5'') default_y = Some 2" unfolding default_y_def by simp
  have x: "find_index (\<lambda>v. v = ''163'') default_x = Some 5" unfolding default_x_def by simp
  show ?thesis
    using restore_row_exact_match [OF row_fields(3) row_fields(5) row_fields(4) row_fields(6)
        row_fields(1) row_fields(2) t, where s = ?s and n = 0]
    by (simp add: apply_new_app x y g grid_keys_iff)
qed

text \<open>
  C2, as stated, fails in version 2.0: the stored values \<^verbatim>\<open>150.0\<close> and \<^verbatim>\<open>3800.00\<close>
  match the generated \<^verbatim>\<open>150\<close> and \<^verbatim>\<open>3800.0\<close> of the default grid when both sides
  are parsed and rounded to one decimal, the axis parameters of the row are the current
  ones and the cell has a button, yet the row is passed over.
\<close>

theorem restore_row_not_tolerant:
  "tolerant_index declib (current_values_x (init_app declib ''2026-01-01'')) ''150.0'' = Some 0
   \<and> tolerant_index declib (current_values_y (init_app declib ''2026-01-01'')) ''3800.00'' = Some 0
   \<and> drifted_row ''X_Value'' = Some (Some ''150.0'')
   \<and> drifted_row ''Y_Value'' = Some (Some ''3800.00'')
   \<and> drifted_row ''X_Param'' = Some (Some (current_x_param (init_app declib ''2026-01-01'')))
   \<and> drifted_row ''Y_Param'' = Some (Some (current_y_param (init_app declib ''2026-01-01'')))
   \<and> (0, 0, 0) \<in> buttons (init_app declib ''2026-01-01'')
   \<and> restore_row declib (init_app declib ''2026-01-01'', 0) drifted_row =
       (init_app declib ''2026-01-01'', 0)"
proof -
  have x: "tolerant_index declib default_x ''150.0'' = Some 0"
    unfolding default_x_def by code_simp
  have y: "tolerant_index declib default_y ''3800.00'' = Some 0"
    unfolding default_y_def by code_simp
  have t: "py_int declib ''0'' = Inr 0" by code_simp
  have fx: "find_index (\<lambda>v. v = ''150.0'') default_x = None" unfolding default_x_def by simp
  have fy: "find_index (\<lambda>v. v = ''3800.00'') default_y = None" unfolding default_y_def by simp
  show ?thesis
    by (simp add: apply_new_app x y t fx fy drifted_row_def row_fields grid_keys_iff
          restore_row_def dict_get_def str_field_def)
qed

subsection \<open>Import does not cut the notes\<close>









subsection \<open>Generated value sequences\<close>



text \<open>
  C7 at a concrete input: with start and end both \<^verbatim>\<open>150\<close> the values of the integer
  class parameter Speed are \<^verbatim>\<open>150.0\<close>, the \<^verbatim>\<open>str\<close> of the float, where the class
  formats \<^verbatim>\<open>150\<close>; with both \<^verbatim>\<open>0.0010\<close> the values of Line Interval are
  \<^verbatim>\<open>0.001\<close>, where the class formats \<^verbatim>\<open>0.0010\<close>. Only Frequency is formatted by
  its class in the degenerate branch.
\<close>

theorem generate_values_degenerate_str:
  "generate_values declib (\<lambda>p. (''150'', ''150'')) ''Speed'' 3 = Inr [''150.0'', ''150.0'', ''150.0'']
   \<and> format_value declib ''Speed'' 150 = ''150''
   \<and> generate_values declib (\<lambda>p. (''0.0010'', ''0.0010'')) ''Line Interval'' 3
       = Inr [''0.001'', ''0.001'', ''0.001'']
   \<and> format_value declib ''Line Interval'' (1 / 1000) = ''0.0010''"
  by code_simp

subsection \<open>A range that cannot be parsed\<close>

lemma init_app_vars:
  "x_axis_var (init_app declib d) = ''Q-Pulse''"
  "y_axis_var (init_app declib d) = ''Frequency''"
  "x_counts_var (init_app declib d) = ''20''"
  "y_counts_var (init_app declib d) = ''20''"
  "qpulse_mode (init_app declib d) = ''Single''"
  "ranges (init_app declib d) = default_ranges"
  by (simp_all add: init_app_def apply_ranges_def new_app_def dec_int_20 gen_default_x gen_default_y
       create_single_grid_def build_grid_def clear_all_def Let_def)

text \<open>
  C3 at a concrete input: on the default grid the operator widens the Q-Pulse range and
  types a Frequency start that is no number. \<^verbatim>\<open>apply_ranges\<close> reports the invalid
  range, and the x sequence is already the new one, while the y sequence, the current
  axis parameters, the grids, the buttons and the notes are the prior ones.
\<close>

theorem apply_ranges_partial_update:
  "current_values_x bad_range_app = default_x
   \<and> wide_x \<noteq> default_x
   \<and> apply_ranges declib True True bad_range_app =
       (bad_range_app\<lparr>current_values_x := wide_x\<rparr>,
        [ShowError ''Input Error'' ''Invalid range for Frequency''])"
proof -
  let ?r = "default_ranges(''Q-Pulse'' := (''100'', ''200''), ''Frequency'' := (''abc'', ''100.0''))"
  have x: "generate_values declib ?r ''Q-Pulse'' 20 = Inr wide_x"
    unfolding wide_x_def by code_simp
  have y: "generate_values declib ?r ''Frequency'' 20 = Inl (ValueError ''Invalid range for Frequency'')"
    by code_simp
  have w: "wide_x \<noteq> default_x" by (simp add: wide_x_def default_x_def)
  show ?thesis
    using w
    by (simp add: bad_range_app_def apply_ranges_def init_app_vars apply_new_app dec_int_20 x y
          error_dialog_def Let_def)
qed

subsection \<open>Round trip: lines, metadata and fields\<close>

lemma rstrip_Nil_iff: "rstrip t = [] \<longleftrightarrow> (\<forall>x\<in>set t. py_isspace x)"
  by (simp add: rstrip_def)

lemma rstrip_Cons: "rstrip (c # t) = (if rstrip t = [] \<and> py_isspace c then [] else c # rstrip t)"
  by (auto simp: rstrip_def dropWhile_append)

lemma rstrip_append_nonspace: "\<not> py_isspace c \<Longrightarrow> rstrip (a @ c # v) = a @ c # rstrip v"
  by (induction a) (auto simp: rstrip_Cons rstrip_Nil_iff)

lemma lstrip_rstrip: "lstrip (rstrip t) = rstrip (lstrip t)"
proof (induction t)
  case Nil
  then show ?case by (simp add: lstrip_def rstrip_def)
next
  case (Cons c t)
  show ?case
  proof (cases "py_isspace c")
    case True
    show ?thesis
    proof (cases "\<forall>x\<in>set t. py_isspace x")
      case all: True
      then have d: "dropWhile py_isspace t = []" by simp
      have e: "rstrip [] = []" by (simp add: rstrip_def)
      from all True show ?thesis
        by (simp add: rstrip_Cons lstrip_def rstrip_Nil_iff d e)
    next
      case False
      with True Cons show ?thesis
        by (auto simp: rstrip_Cons lstrip_def rstrip_Nil_iff)
    qed
  next
    case False
    then show ?thesis by (simp add: rstrip_Cons lstrip_def)
  qed
qed

lemma strip_rstrip: "strip (rstrip v) = strip v"
  by (simp add: strip_def lstrip_rstrip) (simp add: rstrip_def)

lemma strip_lstrip: "strip (lstrip v) = strip v"
  by (simp add: strip_def lstrip_def)

lemma strip_space_Cons: "py_isspace c \<Longrightarrow> strip (c # v) = strip v"
  by (simp add: strip_def lstrip_def)

lemma classify_meta:
  assumes "CHR '':'' \<notin> set k"
  shows "classify_line (md, dl) (strip (CHR ''#'' # k @ CHR '':'' # v)) = (md(strip k \<mapsto> strip v), dl)"
proof -
  have h: "\<not> py_isspace CHR ''#''" and c: "\<not> py_isspace CHR '':''"
    by (simp_all add: py_isspace_def)
  have l: "strip (CHR ''#'' # k @ CHR '':'' # v) = CHR ''#'' # k @ CHR '':'' # rstrip v"
    using rstrip_append_nonspace [OF c, of "CHR ''#'' # k" v] h
    by (simp add: strip_def lstrip_def)
  have t: "takeWhile (\<lambda>c. c \<noteq> CHR '':'') (k @ CHR '':'' # w) = k" for w
    using assms by (induction k) auto
  have d: "dropWhile (\<lambda>c. c \<noteq> CHR '':'') (k @ CHR '':'' # w) = CHR '':'' # w" for w
    using assms by (induction k) auto
  show ?thesis
    unfolding l by (simp add: classify_line_def startswith_hash_def t d strip_rstrip Let_def)
qed

lemma unlines_Cons: "unlines (l # ls) = l @ CHR 0x0A # unlines ls"
  by (simp add: unlines_def)

lemma unlines_append: "unlines (a @ b) = unlines a @ unlines b"
  by (simp add: unlines_def)

lemma unlines_Nil: "unlines [] = []"
  by (simp add: unlines_def)

lemma unlines_globals:
  "unlines (map meta_line (map (\<lambda>kv. (''   '' @ fst kv, '' '' @ snd kv)) gs)) =
   concat (map (\<lambda>kv. ''#   '' @ fst kv @ '': '' @ snd kv @ [CHR 0x0A]) gs)"
  by (induction gs) (simp_all add: unlines_def meta_line_def)

lemma unlines_global_kvs:
  "unlines (map meta_line (global_kvs s)) =
   ''# Global Parameters:'' @ [CHR 0x0A]
   @ concat (map (\<lambda>kv. ''#   '' @ fst kv @ '': '' @ snd kv @ [CHR 0x0A]) (globals_of s))"
  unfolding global_kvs_def list.map unlines_Cons unlines_globals
  by (simp add: meta_line_def)

lemma unlines_range_kvs:
  "unlines (map meta_line (range_kvs s)) =
   ''# Parameter Ranges:'' @ [CHR 0x0A] @ concat (map (range_lines s) PARAMETERS)"
  by (simp add: range_kvs_def PARAMETERS_def range_lines_def unlines_Cons unlines_Nil meta_line_def)

lemma unlines_head_kvs:
  "unlines (map meta_line (head_kvs today s)) =
     ''# Date: '' @ today @ [CHR 0x0A]
     @ ''# X_Axis: '' @ current_x_param s @ [CHR 0x0A]
     @ ''# Y_Axis: '' @ current_y_param s @ [CHR 0x0A]
     @ ''# Mode: '' @ (if qpulse_mode s = ''Split'' then ''Split'' else ''Single'') @ [CHR 0x0A]
     @ ''# X_counts: '' @ x_counts_var s @ [CHR 0x0A]
     @ ''# Y_counts: '' @ y_counts_var s @ [CHR 0x0A]"
  by (simp add: head_kvs_def unlines_Cons unlines_Nil meta_line_def)

lemma metadata_text_lines:
  "metadata_text today s =
     unlines (''# Laser Test Grid Export - Metadata'' # map meta_line (head_kvs today s) @ [[]]
              @ map meta_line (range_kvs s) @ [[]] @ map meta_line (global_kvs s) @ [[]])"
  unfolding unlines_Cons unlines_append unlines_head_kvs unlines_range_kvs unlines_global_kvs
  by (simp add: metadata_text_def unlines_Nil)

lemma split_where_nonempty: "split_where P s \<noteq> []"
  by (induction s) (auto split: list.splits)

lemma split_where_line:
  "one_line l \<Longrightarrow> line_break c \<Longrightarrow>
   split_where line_break (l @ c # rest) = l # split_where line_break rest"
  by (induction l) (auto simp: one_line_def split_where_nonempty split: list.splits)

lemma strip_Nil: "strip [] = []"
  by (simp add: strip_def lstrip_def rstrip_def)

lemma file_lines_unlines:
  "\<forall>l\<in>set ls. one_line l \<Longrightarrow> file_lines (unlines ls @ rest) = map strip ls @ file_lines rest"
proof (induction ls)
  case Nil
  then show ?case by (simp add: unlines_def)
next
  case (Cons l ls)
  have "split_where line_break (l @ CHR 0x0A # (unlines ls @ rest)) =
          l # split_where line_break (unlines ls @ rest)"
    using Cons.prems by (intro split_where_line) (simp_all add: line_break_def)
  with Cons show ?case
    by (simp add: unlines_Cons file_lines_def)
qed

lemma file_lines_crlf:
  "one_line l \<Longrightarrow> file_lines (l @ CHR 0x0D # CHR 0x0A # rest) = strip l # [] # file_lines rest"
  using split_where_line [of l "CHR 0x0D" "CHR 0x0A # rest"]
  by (simp add: file_lines_def strip_Nil line_break_def)

lemma file_lines_Nil: "file_lines [] = [[]]"
  by (simp add: file_lines_def strip_Nil)

lemma classify_blank: "classify_line acc [] = acc"
  by (cases acc) (simp add: classify_line_def startswith_hash_def)

lemma classify_comment:
  "startswith_hash l \<Longrightarrow> CHR '':'' \<notin> set l \<Longrightarrow> classify_line acc l = acc"
  by (cases acc) (simp add: classify_line_def)

lemma classify_data:
  "l \<noteq> [] \<Longrightarrow> \<not> startswith_hash l \<Longrightarrow> classify_line (md, dl) l = (md, dl @ [l])"
  by (simp add: classify_line_def)

lemma fold_meta:
  "\<forall>kv\<in>set kvs. CHR '':'' \<notin> set (fst kv) \<Longrightarrow>
   foldl classify_line (md, dl) (map (\<lambda>kv. strip (meta_line kv)) kvs) =
     (foldl (\<lambda>m kv. m(strip (fst kv) \<mapsto> strip (snd kv))) md kvs, dl)"
  by (induction kvs arbitrary: md) (simp_all add: meta_line_def classify_meta)

lemma fold_data:
  "\<forall>l\<in>set ls. strip l \<noteq> [] \<and> \<not> startswith_hash (strip l) \<Longrightarrow>
   foldl classify_line (md, dl) (map strip (concat (map (\<lambda>l. [l, []]) ls))) = (md, dl @ map strip ls)"
  by (induction ls arbitrary: dl) (simp_all add: classify_data classify_blank strip_Nil)

lemma csv_in_field:
  "CHR ''|'' \<notin> set f \<Longrightarrow> csv_parse IN_FIELD cur acc (f @ rest) = csv_parse IN_FIELD (cur @ f) acc rest"
  by (induction f arbitrary: cur) auto

lemma plain_field_iff: "plain_field f \<longleftrightarrow> (\<forall>c\<in>set f. \<not> csv_special c)"
  by (simp add: plain_field_def list_ex_iff)

lemma csv_start_field:
  assumes "plain_field f"
  shows "csv_parse START_FIELD [] acc (f @ CHR ''|'' # rest) = csv_parse START_FIELD [] (acc @ [f]) rest"
    and "csv_parse START_FIELD [] acc f = acc @ [f]"
proof -
  have n: "CHR ''|'' \<notin> set f" "CHR 0x22 \<notin> set f"
    using assms by (auto simp: plain_field_iff csv_special_def)
  show "csv_parse START_FIELD [] acc (f @ CHR ''|'' # rest) = csv_parse START_FIELD [] (acc @ [f]) rest"
  proof (cases f)
    case Nil
    then show ?thesis by simp
  next
    case (Cons c f')
    with n have "CHR ''|'' \<notin> set f'" "c \<noteq> CHR ''|''" "c \<noteq> CHR 0x22" by auto
    then show ?thesis
      unfolding Cons using csv_in_field [of f' "[c]" acc "CHR ''|'' # rest"] by simp
  qed
  show "csv_parse START_FIELD [] acc f = acc @ [f]"
  proof (cases f)
    case Nil
    then show ?thesis by simp
  next
    case (Cons c f')
    with n have "CHR ''|'' \<notin> set f'" "c \<noteq> CHR ''|''" "c \<noteq> CHR 0x22" by auto
    then show ?thesis
      unfolding Cons using csv_in_field [of f' "[c]" acc "[]"] by simp
  qed
qed

lemma csv_parse_join:
  "fs \<noteq> [] \<Longrightarrow> \<forall>f\<in>set fs. plain_field f \<Longrightarrow>
   csv_parse START_FIELD [] acc (join ''|'' fs) = acc @ fs"
proof (induction fs arbitrary: acc rule: induct_list012)
  case 1
  then show ?case by simp
next
  case (2 x)
  then show ?case by (simp add: csv_start_field)
next
  case (3 x y zs)
  then show ?case by (simp add: csv_start_field)
qed

lemma csv_reader_join:
  "fs \<noteq> [] \<Longrightarrow> \<forall>f\<in>set fs. plain_field f \<Longrightarrow> csv_reader (join ''|'' fs) = fs"
  by (simp add: csv_reader_def csv_parse_join)

lemma csv_field_plain: "plain_field f \<Longrightarrow> csv_field f = f"
  by (simp add: csv_field_def plain_field_def)

lemma lstrip_append_nonspace: "\<not> py_isspace c \<Longrightarrow> lstrip (a @ c # v) = lstrip a @ c # v"
  by (induction a) (simp_all add: lstrip_def)

lemma plain_lstrip: "plain_field f \<Longrightarrow> plain_field (lstrip f)"
  by (auto simp: plain_field_iff lstrip_def dest: set_dropWhileD)

lemma plain_rstrip: "plain_field f \<Longrightarrow> plain_field (rstrip f)"
  by (auto simp: plain_field_iff rstrip_def dest: set_dropWhileD)

lemma plain_one_line: "plain_field f \<Longrightarrow> one_line f"
  by (auto simp: plain_field_iff one_line_def csv_special_def line_break_def)

lemma header_line:
  "join ''|'' (map csv_field fieldnames) =
     ''Note|Tab|X_Param|X_Value|Y_Param|Y_Value|Title|Speed|Power|Frequency|Line Interval|Passes|Q-Pulse''"
  "csv_reader (strip
     ''Note|Tab|X_Param|X_Value|Y_Param|Y_Value|Title|Speed|Power|Frequency|Line Interval|Passes|Q-Pulse'')
     = fieldnames"
  by code_simp+

lemma file_lines_rows:
  "\<forall>l\<in>set ls. one_line l \<Longrightarrow>
   file_lines (concat (map (\<lambda>l. l @ [CHR 0x0D, CHR 0x0A]) ls)) =
     concat (map (\<lambda>l. [strip l, []]) ls) @ [[]]"
  by (induction ls) (simp_all add: file_lines_Nil file_lines_crlf)

lemma one_line_append: "one_line (a @ b) \<longleftrightarrow> one_line a \<and> one_line b"
  by (auto simp: one_line_def)

lemma one_line_Cons: "one_line (c # b) \<longleftrightarrow> \<not> line_break c \<and> one_line b"
  by (auto simp: one_line_def)

lemma one_line_Nil: "one_line []"
  by (simp add: one_line_def)

lemma one_line_strip: "one_line v \<Longrightarrow> one_line (strip v)"
  by (auto simp: one_line_def strip_def lstrip_def rstrip_def dest!: set_dropWhileD)

lemma param_names:
  assumes "p \<in> set (''Title'' # PARAMETERS)"
  shows "one_line p" and "CHR '':'' \<notin> set p" and "strip (''   '' @ p) = p"
    and "p \<in> {''Title'', ''Speed'', ''Power'', ''Frequency'', ''Line Interval'', ''Passes'', ''Q-Pulse''}"
proof -
  have t: "strip ''   Title'' = ''Title''" "strip ''   Speed'' = ''Speed''"
    "strip ''   Power'' = ''Power''" "strip ''   Frequency'' = ''Frequency''"
    "strip ''   Line Interval'' = ''Line Interval''" "strip ''   Passes'' = ''Passes''"
    "strip ''   Q-Pulse'' = ''Q-Pulse''"
    by code_simp+
  from assms show "one_line p" and "CHR '':'' \<notin> set p" and "strip (''   '' @ p) = p"
    and "p \<in> {''Title'', ''Speed'', ''Power'', ''Frequency'', ''Line Interval'', ''Passes'', ''Q-Pulse''}"
    using t by (auto simp: PARAMETERS_def one_line_def line_break_def)
qed

lemma meta_line_one_line: "one_line (meta_line kv) \<longleftrightarrow> one_line (fst kv) \<and> one_line (snd kv)"
  by (auto simp: meta_line_def one_line_def line_break_def)

lemma head_lines_ok:
  assumes "clean_state today s" "current_x_param s \<in> set PARAMETERS" "current_y_param s \<in> set PARAMETERS"
  shows "\<forall>kv\<in>set (head_kvs today s). one_line (meta_line kv) \<and> CHR '':'' \<notin> set (fst kv)"
  using assms param_names(1) [of "current_x_param s"] param_names(1) [of "current_y_param s"]
  by (auto simp: head_kvs_def clean_state_def clean_text_def meta_line_one_line one_line_Cons
        one_line_Nil line_break_def)

lemma range_lines_ok:
  assumes "clean_state today s"
  shows "\<forall>kv\<in>set (range_kvs s). one_line (meta_line kv) \<and> CHR '':'' \<notin> set (fst kv)"
  using assms
  by (auto simp: range_kvs_def clean_state_def clean_text_def meta_line_one_line one_line_Cons
        one_line_Nil line_break_def PARAMETERS_def)

lemma global_lines_ok:
  assumes "clean_state today s"
  shows "\<forall>kv\<in>set (global_kvs s). one_line (meta_line kv) \<and> CHR '':'' \<notin> set (fst kv)
           \<and> strip (fst kv) \<in> {''Global Parameters'', ''Title'', ''Speed'', ''Power'', ''Frequency'',
                                   ''Line Interval'', ''Passes'', ''Q-Pulse''}"
proof -
  have g: "strip '' Global Parameters'' = ''Global Parameters''" by code_simp
  have "one_line (meta_line (''   '' @ k, '' '' @ strip v)) \<and> CHR '':'' \<notin> set (''   '' @ k)
        \<and> strip (''   '' @ k) \<in> {''Global Parameters'', ''Title'', ''Speed'', ''Power'', ''Frequency'',
                                   ''Line Interval'', ''Passes'', ''Q-Pulse''}"
    if "(k, v) \<in> set (global_entries s)" for k v
  proof -
    from that assms have k: "k \<in> set (''Title'' # PARAMETERS)" and v: "one_line v"
      by (auto simp: clean_state_def dest: imageI [where f = fst] imageI [where f = snd])
    from param_names [OF k] one_line_strip [OF v] show ?thesis
      by (auto simp: meta_line_one_line one_line_Cons one_line_append line_break_def)
  qed
  note ent = this
  show ?thesis
  proof (intro ballI)
    fix kv
    assume "kv \<in> set (global_kvs s)"
    then consider "kv = ('' Global Parameters'', [])"
      | k v where "(k, v) \<in> set (global_entries s)" "kv = (''   '' @ k, '' '' @ strip v)"
      by (auto simp: global_kvs_def globals_of_def)
    then show "one_line (meta_line kv) \<and> CHR '':'' \<notin> set (fst kv)
           \<and> strip (fst kv) \<in> {''Global Parameters'', ''Title'', ''Speed'', ''Power'', ''Frequency'',
                                   ''Line Interval'', ''Passes'', ''Q-Pulse''}"
    proof cases
      case 1
      then show ?thesis
        using g by (simp add: meta_line_one_line one_line_Cons one_line_Nil line_break_def)
    next
      case (2 k v)
      with ent [of k v] show ?thesis by simp
    qed
  qed
qed

lemma fold_data_lines:
  "\<forall>l\<in>set ls. strip l \<noteq> [] \<and> \<not> startswith_hash (strip l) \<Longrightarrow>
   foldl classify_line (md, dl) (concat (map (\<lambda>l. [strip l, []]) ls) @ [[]]) = (md, dl @ map strip ls)"
  by (induction ls arbitrary: dl) (simp_all add: classify_data classify_blank)

lemma header_ok:
  "one_line (join ''|'' (map csv_field fieldnames))"
  "strip (join ''|'' (map csv_field fieldnames)) \<noteq> []"
  "\<not> startswith_hash (strip (join ''|'' (map csv_field fieldnames)))"
  "classify_line acc (strip ''# Laser Test Grid Export - Metadata'') = acc"
  "one_line ''# Laser Test Grid Export - Metadata''"
proof -
  show "one_line (join ''|'' (map csv_field fieldnames))"
    unfolding header_line by (simp add: one_line_def line_break_def)
  show "strip (join ''|'' (map csv_field fieldnames)) \<noteq> []"
    "\<not> startswith_hash (strip (join ''|'' (map csv_field fieldnames)))"
    by code_simp+
  have "strip ''# Laser Test Grid Export - Metadata'' = ''# Laser Test Grid Export - Metadata''"
    by code_simp
  then show "classify_line acc (strip ''# Laser Test Grid Export - Metadata'') = acc"
    by (simp add: classify_comment startswith_hash_def)
  show "one_line ''# Laser Test Grid Export - Metadata''"
    by (simp add: one_line_def line_break_def)
qed

lemma read_file_export:
  assumes cs: "clean_state today s"
    and xp: "current_x_param s \<in> set PARAMETERS" and yp: "current_y_param s \<in> set PARAMETERS"
    and rows: "\<forall>r\<in>set rows. one_line (join ''|'' (map csv_field r))
                 \<and> strip (join ''|'' (map csv_field r)) \<noteq> []
                 \<and> \<not> startswith_hash (strip (join ''|'' (map csv_field r)))"
  shows "read_file (metadata_text today s @ csv_writerow fieldnames @ concat (map csv_writerow rows)) =
           (foldl meta_update Map.empty (head_kvs today s @ range_kvs s @ global_kvs s),
            strip (join ''|'' (map csv_field fieldnames))
            # map (\<lambda>r. strip (join ''|'' (map csv_field r))) rows)"
proof -
  let ?hl = "join ''|'' (map csv_field fieldnames)"
  let ?rl = "\<lambda>r. join ''|'' (map csv_field r)"
  let ?meta_lines = "''# Laser Test Grid Export - Metadata'' # map meta_line (head_kvs today s) @ [[]]
              @ map meta_line (range_kvs s) @ [[]] @ map meta_line (global_kvs s) @ [[]]"
  let ?M = "foldl meta_update Map.empty (head_kvs today s @ range_kvs s @ global_kvs s)"
  have ol: "\<forall>l\<in>set ?meta_lines. one_line l"
    using head_lines_ok [OF cs xp yp] range_lines_ok [OF cs] global_lines_ok [OF cs]
    by (auto simp: header_ok one_line_Nil)
  have csv: "csv_writerow fieldnames @ concat (map csv_writerow rows) =
               concat (map (\<lambda>l. l @ [CHR 0x0D, CHR 0x0A]) (?hl # map ?rl rows))"
    by (simp add: csv_writerow_def [abs_def] comp_def)
  have dl: "\<forall>l\<in>set (?hl # map ?rl rows). one_line l"
    using rows by (simp add: header_ok)
  have fl: "file_lines (metadata_text today s @ csv_writerow fieldnames @ concat (map csv_writerow rows)) =
              map strip ?meta_lines @ concat (map (\<lambda>l. [strip l, []]) (?hl # map ?rl rows)) @ [[]]"
    unfolding metadata_text_lines csv
    using file_lines_unlines [OF ol] file_lines_rows [OF dl] by simp
  have m1: "foldl classify_line (md, []) (map (strip \<circ> meta_line) kvs) = (foldl meta_update md kvs, [])"
    if "\<forall>kv\<in>set kvs. one_line (meta_line kv) \<and> CHR '':'' \<notin> set (fst kv)" for md kvs
    using fold_meta [of kvs md "[]"] that by (simp add: comp_def)
  have meta: "foldl classify_line (Map.empty, []) (map strip ?meta_lines) = (?M, [])"
    using head_lines_ok [OF cs xp yp] range_lines_ok [OF cs] global_lines_ok [OF cs]
    by (simp add: header_ok m1 classify_blank strip_Nil)
  have data: "foldl classify_line (?M, []) (concat (map (\<lambda>l. [strip l, []]) (?hl # map ?rl rows)) @ [[]])
                = (?M, [] @ map strip (?hl # map ?rl rows))"
    using rows by (intro fold_data_lines) (simp add: header_ok)
  have "read_file (metadata_text today s @ csv_writerow fieldnames @ concat (map csv_writerow rows)) =
          foldl classify_line (foldl classify_line (Map.empty, []) (map strip ?meta_lines))
            (concat (map (\<lambda>l. [strip l, []]) (?hl # map ?rl rows)) @ [[]])"
    unfolding read_file_def fl by (rule foldl_append)
  also have "\<dots> = (?M, [] @ map strip (?hl # map ?rl rows))"
    unfolding meta by (rule data)
  finally show ?thesis by (simp add: comp_def)
qed

lemma foldl_upd_other:
  "k \<notin> (\<lambda>kv. strip (fst kv)) ` set kvs \<Longrightarrow> foldl meta_update m kvs k = m k"
  by (induction kvs arbitrary: m) auto

lemma key_strips:
  "strip '' Date'' = ''Date''" "strip '' X_Axis'' = ''X_Axis''" "strip '' Y_Axis'' = ''Y_Axis''"
  "strip '' Mode'' = ''Mode''" "strip '' X_counts'' = ''X_counts''" "strip '' Y_counts'' = ''Y_counts''"
  "strip '' Parameter Ranges'' = ''Parameter Ranges''"
  "strip ''   Speed_start'' = ''Speed_start''" "strip ''   Speed_end'' = ''Speed_end''"
  "strip ''   Power_start'' = ''Power_start''" "strip ''   Power_end'' = ''Power_end''"
  "strip ''   Frequency_start'' = ''Frequency_start''" "strip ''   Frequency_end'' = ''Frequency_end''"
  "strip ''   Line Interval_start'' = ''Line Interval_start''"
  "strip ''   Line Interval_end'' = ''Line Interval_end''"
  "strip ''   Passes_start'' = ''Passes_start''" "strip ''   Passes_end'' = ''Passes_end''"
  "strip ''   Q-Pulse_start'' = ''Q-Pulse_start''" "strip ''   Q-Pulse_end'' = ''Q-Pulse_end''"
  "strip '' Split'' = ''Split''" "strip '' Single'' = ''Single''"
  by code_simp+

lemma strip_space: "strip (CHR '' '' # v) = strip v"
  by (simp add: strip_space_Cons py_isspace_def)

lemma strip_param: "p \<in> set PARAMETERS \<Longrightarrow> strip p = p"
  using param_names(3) [of p] by (simp add: strip_space)


lemma meta_lookup:
  assumes cs: "clean_state today s"
    and xp: "current_x_param s \<in> set PARAMETERS" and yp: "current_y_param s \<in> set PARAMETERS"
  defines "M \<equiv> foldl meta_update Map.empty (head_kvs today s @ range_kvs s @ global_kvs s)"
  shows "M ''X_Axis'' = Some (current_x_param s)"
    and "M ''Y_Axis'' = Some (current_y_param s)"
    and "M ''Mode'' = Some (if qpulse_mode s = ''Split'' then ''Split'' else ''Single'')"
    and "M ''X_counts'' = Some (x_counts_var s)"
    and "M ''Y_counts'' = Some (y_counts_var s)"
    and "\<forall>p\<in>set PARAMETERS. M (p @ ''_start'') = Some (fst (ranges s p))
                             \<and> M (p @ ''_end'') = Some (snd (ranges s p))"
proof -
  let ?H = "foldl meta_update Map.empty (head_kvs today s @ range_kvs s)"
  have g: "M k = ?H k"
    if "k \<notin> {''Global Parameters'', ''Title'', ''Speed'', ''Power'', ''Frequency'',
               ''Line Interval'', ''Passes'', ''Q-Pulse''}" for k
  proof -
    have "k \<notin> (\<lambda>kv. strip (fst kv)) ` set (global_kvs s)"
      using global_lines_ok [OF cs] that by blast
    then show ?thesis
      unfolding M_def foldl_append [symmetric] append_assoc [symmetric]
      unfolding foldl_append by (rule foldl_upd_other)
  qed
  have c: "strip (x_counts_var s) = x_counts_var s" "strip (y_counts_var s) = y_counts_var s"
    "strip (fst (ranges s ''Speed'')) = fst (ranges s ''Speed'')"
    "strip (snd (ranges s ''Speed'')) = snd (ranges s ''Speed'')"
    "strip (fst (ranges s ''Power'')) = fst (ranges s ''Power'')"
    "strip (snd (ranges s ''Power'')) = snd (ranges s ''Power'')"
    "strip (fst (ranges s ''Frequency'')) = fst (ranges s ''Frequency'')"
    "strip (snd (ranges s ''Frequency'')) = snd (ranges s ''Frequency'')"
    "strip (fst (ranges s ''Line Interval'')) = fst (ranges s ''Line Interval'')"
    "strip (snd (ranges s ''Line Interval'')) = snd (ranges s ''Line Interval'')"
    "strip (fst (ranges s ''Passes'')) = fst (ranges s ''Passes'')"
    "strip (snd (ranges s ''Passes'')) = snd (ranges s ''Passes'')"
    "strip (fst (ranges s ''Q-Pulse'')) = fst (ranges s ''Q-Pulse'')"
    "strip (snd (ranges s ''Q-Pulse'')) = snd (ranges s ''Q-Pulse'')"
    using cs by (simp_all add: clean_state_def clean_text_def PARAMETERS_def)
  note ev = head_kvs_def range_kvs_def PARAMETERS_def key_strips [simplified strip_space] strip_space c
    strip_param [OF xp] strip_param [OF yp]
  show "M ''X_Axis'' = Some (current_x_param s)"
    by (subst g) (simp_all add: ev)
  show "M ''Y_Axis'' = Some (current_y_param s)"
    by (subst g) (simp_all add: ev)
  show "M ''Mode'' = Some (if qpulse_mode s = ''Split'' then ''Split'' else ''Single'')"
    by (subst g) (simp_all add: ev)
  show "M ''X_counts'' = Some (x_counts_var s)"
    by (subst g) (simp_all add: ev)
  show "M ''Y_counts'' = Some (y_counts_var s)"
    by (subst g) (simp_all add: ev)
  have "M (p @ ''_start'') = Some (fst (ranges s p)) \<and> M (p @ ''_end'') = Some (snd (ranges s p))"
    if "p \<in> {''Speed'', ''Power'', ''Frequency'', ''Line Interval'', ''Passes'', ''Q-Pulse''}" for p
    using that by (elim insertE emptyE; simp; intro conjI; subst g; simp add: ev)
  then show "\<forall>p\<in>set PARAMETERS. M (p @ ''_start'') = Some (fst (ranges s p))
                             \<and> M (p @ ''_end'') = Some (snd (ranges s p))"
    by (simp add: PARAMETERS_def)
qed

lemma set_vars_export:
  assumes "M ''X_Axis'' = Some xa" and "M ''Y_Axis'' = Some ya" and "M ''Mode'' = Some mo"
    and "M ''X_counts'' = Some xc" and "M ''Y_counts'' = Some yc"
    and "\<forall>p\<in>set PARAMETERS. M (p @ ''_start'') = Some (fst (r p)) \<and> M (p @ ''_end'') = Some (snd (r p))"
  shows "x_axis_var (set_vars M s0) = xa" and "y_axis_var (set_vars M s0) = ya"
    and "qpulse_mode (set_vars M s0) = (if mo = ''Split'' then ''Split'' else ''Single'')"
    and "x_counts_var (set_vars M s0) = xc" and "y_counts_var (set_vars M s0) = yc"
    and "\<forall>p\<in>set PARAMETERS. ranges (set_vars M s0) p = r p"
    and "buttons (set_vars M s0) = buttons s0"
  using assms by (simp_all add: set_vars_def dict_get_def)

lemma generate_values_const: "generate_values L rng p n = generate_values L (\<lambda>_. rng p) p n"
  by (simp add: generate_values_def)

lemma generate_values_cong:
  assumes "p \<in> set PARAMETERS \<longrightarrow> rng p = rng' p"
  shows "generate_values L rng p n = generate_values L rng' p n"
proof (cases "p \<in> set PARAMETERS")
  case True
  with assms have "rng p = rng' p" by simp
  then show ?thesis
    using generate_values_const [of L rng p n] generate_values_const [of L rng' p n] by simp
next
  case False
  then show ?thesis by (simp add: generate_values_def)
qed

lemma apply_applied:
  assumes a: "applied L s"
    and v: "x_axis_var s' = x_axis_var s" "y_axis_var s' = y_axis_var s"
      "x_counts_var s' = x_counts_var s" "y_counts_var s' = y_counts_var s"
      "(qpulse_mode s' = ''Split'') = (qpulse_mode s = ''Split'')"
      "\<forall>p\<in>set PARAMETERS. ranges s' p = ranges s p"
  shows "current_values_x (fst (apply_ranges L True True s')) = current_values_x s"
    and "current_values_y (fst (apply_ranges L True True s')) = current_values_y s"
    and "current_x_param (fst (apply_ranges L True True s')) = current_x_param s"
    and "current_y_param (fst (apply_ranges L True True s')) = current_y_param s"
    and "grid_cells s \<subseteq> buttons (fst (apply_ranges L True True s'))"
    and "notes_dict (fst (apply_ranges L True True s')) = []"
    and "x_axis_var (fst (apply_ranges L True True s')) = x_axis_var s"
    and "y_axis_var (fst (apply_ranges L True True s')) = y_axis_var s"
proof -
  from a obtain xc yc where c: "py_int L (x_counts_var s) = Inr xc" "py_int L (y_counts_var s) = Inr yc"
    and gx: "generate_values L (ranges s) (x_axis_var s) (max 2 xc) = Inr (current_values_x s)"
    and gy: "generate_values L (ranges s) (y_axis_var s) (max 2 yc) = Inr (current_values_y s)"
    and ne: "x_axis_var s \<noteq> y_axis_var s"
    and p: "current_x_param s = x_axis_var s" "current_y_param s = y_axis_var s"
    by (auto simp: applied_def split: sum.splits)
  have gx': "generate_values L (ranges s') (x_axis_var s) (max 2 xc) = Inr (current_values_x s)"
    using gx v(6) generate_values_cong [of "x_axis_var s" "ranges s'" "ranges s" L] by simp
  have gy': "generate_values L (ranges s') (y_axis_var s) (max 2 yc) = Inr (current_values_y s)"
    using gy v(6) generate_values_cong [of "y_axis_var s" "ranges s'" "ranges s" L] by simp
  note ev = apply_ranges_def v(1-4) c gx' gy' ne p Let_def create_split_grids_def
    create_single_grid_def build_grid_def clear_all_def grid_cells_def
  show "current_values_x (fst (apply_ranges L True True s')) = current_values_x s"
    by (simp add: ev split: prod.splits)
  show "current_values_y (fst (apply_ranges L True True s')) = current_values_y s"
    by (simp add: ev split: prod.splits)
  show "current_x_param (fst (apply_ranges L True True s')) = current_x_param s"
    by (simp add: ev split: prod.splits)
  show "current_y_param (fst (apply_ranges L True True s')) = current_y_param s"
    by (simp add: ev split: prod.splits)
  show "grid_cells s \<subseteq> buttons (fst (apply_ranges L True True s'))"
    using v(5) by (auto simp: ev split: prod.splits)
  show "notes_dict (fst (apply_ranges L True True s')) = []"
    by (simp add: ev split: prod.splits)
  show "x_axis_var (fst (apply_ranges L True True s')) = x_axis_var s"
    by (simp add: ev split: prod.splits)
  show "y_axis_var (fst (apply_ranges L True True s')) = y_axis_var s"
    by (simp add: ev split: prod.splits)
qed

lemma restore_global_shape: "\<exists>g. restore_global md s p = s\<lparr>global_entries := g\<rparr>"
proof (cases "restore_global md s p = s")
  case True
  then have "restore_global md s p = s\<lparr>global_entries := global_entries s\<rparr>" by simp
  then show ?thesis by blast
next
  case False
  then show ?thesis
    by (auto simp: restore_global_def split: option.splits if_splits)
qed

lemma foldl_restore_global: "\<exists>g. foldl (restore_global md) s ps = s\<lparr>global_entries := g\<rparr>"
proof (induction ps arbitrary: s)
  case Nil
  have "s = s\<lparr>global_entries := global_entries s\<rparr>" by simp
  then show ?case by (metis foldl_Nil)
next
  case (Cons p ps)
  from restore_global_shape [of md s p] obtain g where g: "restore_global md s p = s\<lparr>global_entries := g\<rparr>"
    by blast
  from Cons [of "s\<lparr>global_entries := g\<rparr>"] obtain g' where
    "foldl (restore_global md) (s\<lparr>global_entries := g\<rparr>) ps = s\<lparr>global_entries := g'\<rparr>"
    by auto
  with g show ?case by auto
qed

lemma restore_row_stores:
  assumes "rw ''X_Param'' = Some (Some (current_x_param s))"
    and "rw ''Y_Param'' = Some (Some (current_y_param s))"
    and "rw ''X_Value'' = Some (Some x_val)" and "rw ''Y_Value'' = Some (Some y_val)"
    and "rw ''Note'' = Some (Some note_text)" and "rw ''Tab'' = Some (Some tab_field)"
    and "py_int L tab_field = Inr tab"
    and "find_index (\<lambda>v. v = y_val) (current_values_y s) = Some r"
    and "find_index (\<lambda>v. v = x_val) (current_values_x s) = Some c"
    and "(tab, r, c) \<in> buttons s"
  shows "restore_row L (s, n) rw =
           (s\<lparr>notes_dict := AList.update (tab, r, c) (strip note_text) (notes_dict s)\<rparr>, n + 1)"
  using assms by (simp add: restore_row_def dict_get_def str_field_def)

lemma foldl_restore_rows:
  assumes "list_all2 (row_matches L s) items rws"
  shows "foldl (restore_row L) (s\<lparr>notes_dict := nts\<rparr>, n) rws =
           (s\<lparr>notes_dict := foldl (\<lambda>al kt. AList.update (fst kt) (strip (snd kt)) al) nts items\<rparr>,
            n + length items)"
  using assms
proof (induction items rws arbitrary: nts n rule: list_all2_induct)
  case Nil
  then show ?case by simp
next
  case (Cons item items rw rws)
  obtain tab r c t where item: "item = ((tab, r, c), t)" by (metis prod.exhaust)
  from Cons.hyps(1) obtain t' where t': "strip t' = strip t" "rw ''Note'' = Some (Some t')"
    and m: "rw ''Tab'' = Some (Some (str_int tab))"
      "rw ''X_Param'' = Some (Some (current_x_param s))"
      "rw ''Y_Param'' = Some (Some (current_y_param s))"
      "rw ''X_Value'' = Some (Some (current_values_x s ! c))"
      "rw ''Y_Value'' = Some (Some (current_values_y s ! r))"
      "(tab, r, c) \<in> buttons s"
      "find_index (\<lambda>v. v = current_values_y s ! r) (current_values_y s) = Some r"
      "find_index (\<lambda>v. v = current_values_x s ! c) (current_values_x s) = Some c"
      "py_int L (str_int tab) = Inr tab"
    unfolding item row_matches_def by auto
  have "restore_row L (s\<lparr>notes_dict := nts\<rparr>, n) rw =
          (s\<lparr>notes_dict := AList.update (tab, r, c) (strip t) nts\<rparr>, n + 1)"
    using restore_row_stores [where s = "s\<lparr>notes_dict := nts\<rparr>" and rw = rw and L = L
        and x_val = "current_values_x s ! c" and y_val = "current_values_y s ! r"
        and note_text = t' and tab_field = "str_int tab" and tab = tab and r = r and c = c and n = n]
      t' m by simp
  then show ?case
    using Cons.IH [of "AList.update (tab, r, c) (strip t) nts" "n + 1"] by (simp add: item)
qed

lemma update_fresh: "k \<notin> fst ` set al \<Longrightarrow> AList.update k v al = al @ [(k, v)]"
  by (induction al) auto

lemma foldl_update_distinct:
  "distinct (map fst items) \<Longrightarrow> fst ` set items \<inter> fst ` set al = {} \<Longrightarrow>
   foldl (\<lambda>al kt. AList.update (fst kt) (g (snd kt)) al) al items =
     al @ map (\<lambda>kt. (fst kt, g (snd kt))) items"
proof (induction items arbitrary: al)
  case Nil
  then show ?case by simp
next
  case (Cons kt items)
  have f: "AList.update (fst kt) (g (snd kt)) al = al @ [(fst kt, g (snd kt))]"
    using Cons.prems(2) by (intro update_fresh) auto
  have "fst ` set items \<inter> fst ` set (al @ [(fst kt, g (snd kt))]) = {}"
    using Cons.prems by auto
  with Cons.IH [of "al @ [(fst kt, g (snd kt))]"] Cons.prems(1) f show ?case by simp
qed

lemma collect_rows_all2:
  "collect_rows f items = Inr rows \<Longrightarrow> list_all2 (\<lambda>item fs. f item = Inr fs) items rows"
  by (induction items arbitrary: rows) (auto split: sum.splits)

lemma export_row_Inr:
  assumes "export_row L s g ((tab, r, c), t) = Inr fs"
  shows "r < length (current_values_y s)" and "c < length (current_values_x s)"
    and "\<exists>f6 f7 f8 f9 f10 f11 f12. fs = [t, str_int tab, current_x_param s, current_values_x s ! c,
            current_y_param s, current_values_y s ! r, f6, f7, f8, f9, f10, f11, f12]"
  using assms by (auto simp: export_row_def Let_def split: if_splits)

lemma lstrip_bar: "lstrip (a @ CHR ''|'' # v) = lstrip a @ CHR ''|'' # v"
  by (simp add: lstrip_append_nonspace py_isspace_def)

lemma rstrip_bar: "rstrip (a @ CHR ''|'' # v) = a @ CHR ''|'' # rstrip v"
  by (simp add: rstrip_append_nonspace py_isspace_def)

lemma row_line_fields:
  assumes "\<forall>f\<in>set [f0, f1, f2, f3, f4, f5, f6, f7, f8, f9, f10, f11, f12]. plain_field f"
  shows "csv_reader (strip (join ''|'' (map csv_field [f0, f1, f2, f3, f4, f5, f6, f7, f8, f9, f10, f11, f12])))
           = [lstrip f0, f1, f2, f3, f4, f5, f6, f7, f8, f9, f10, f11, rstrip f12]"
    and "one_line (join ''|'' (map csv_field [f0, f1, f2, f3, f4, f5, f6, f7, f8, f9, f10, f11, f12]))"
    and "strip (join ''|'' (map csv_field [f0, f1, f2, f3, f4, f5, f6, f7, f8, f9, f10, f11, f12])) \<noteq> []"
    and "startswith_hash (strip (join ''|'' (map csv_field [f0, f1, f2, f3, f4, f5, f6, f7, f8, f9, f10, f11, f12])))
           = startswith_hash (lstrip f0)"
proof -
  let ?fs = "[f0, f1, f2, f3, f4, f5, f6, f7, f8, f9, f10, f11, f12]"
  have j: "map csv_field ?fs = ?fs" using assms by (simp add: csv_field_plain)
  have s: "strip (join ''|'' ?fs) =
             join ''|'' [lstrip f0, f1, f2, f3, f4, f5, f6, f7, f8, f9, f10, f11, rstrip f12]"
    by (simp add: strip_def lstrip_bar rstrip_bar)
  have p: "\<forall>f\<in>set [lstrip f0, f1, f2, f3, f4, f5, f6, f7, f8, f9, f10, f11, rstrip f12]. plain_field f"
    using assms by (simp add: plain_lstrip plain_rstrip)
  show "csv_reader (strip (join ''|'' (map csv_field ?fs)))
           = [lstrip f0, f1, f2, f3, f4, f5, f6, f7, f8, f9, f10, f11, rstrip f12]"
    unfolding j s using p by (intro csv_reader_join) simp_all
  show "one_line (join ''|'' (map csv_field ?fs))"
    unfolding j using assms
    by (simp add: one_line_append one_line_Cons one_line_Nil plain_one_line line_break_def)
  show "strip (join ''|'' (map csv_field ?fs)) \<noteq> []"
    unfolding j s by simp
  show "startswith_hash (strip (join ''|'' (map csv_field ?fs))) = startswith_hash (lstrip f0)"
    unfolding j s by (cases "lstrip f0") (simp_all add: startswith_hash_def)
qed

subsection \<open>Round trip: export, then import\<close>

lemma list_all2_mem:
  "list_all2 P xs ys \<Longrightarrow> list_all2 (\<lambda>x y. x \<in> set xs \<and> y \<in> set ys \<and> P x y) xs ys"
  by (auto simp: list_all2_conv_all_nth)

lemma list_all2_right_mem:
  "list_all2 P xs ys \<Longrightarrow> y \<in> set ys \<Longrightarrow> \<exists>x\<in>set xs. P x y"
  by (induction rule: list_all2_induct) auto

lemma applied_params:
  assumes "applied L s"
  shows "current_x_param s \<in> set PARAMETERS" and "current_y_param s \<in> set PARAMETERS"
proof -
  have "p \<in> set PARAMETERS" if "generate_values L rng p n = Inr vs" for rng p n vs
    using that by (cases "p \<in> set PARAMETERS") (simp_all add: generate_values_def)
  with assms show "current_x_param s \<in> set PARAMETERS" and "current_y_param s \<in> set PARAMETERS"
    by (auto simp: applied_def split: sum.splits)
qed

lemma distinct_sort_keys:
  "distinct (map fst xs) \<Longrightarrow> distinct (map fst (sort_key fst xs))"
  by (simp add: distinct_map)

lemma exported_row_matches:
  assumes e: "export_row L s g ((tab, r, c), t) = Inr fs"
    and pl: "\<forall>f\<in>set fs. plain_field f"
    and cv: "current_values_x s1 = current_values_x s" "current_values_y s1 = current_values_y s"
      "current_x_param s1 = current_x_param s" "current_y_param s1 = current_y_param s"
    and b: "(tab, r, c) \<in> buttons s1"
    and f: "find_index (\<lambda>v. v = current_values_y s ! r) (current_values_y s) = Some r"
      "find_index (\<lambda>v. v = current_values_x s ! c) (current_values_x s) = Some c"
    and ti: "py_int L (str_int tab) = Inr tab"
  shows "row_matches L s1 ((tab, r, c), t)
           (dict_row fieldnames (csv_reader (strip (join ''|'' (map csv_field fs)))))"
proof -
  from export_row_Inr(3) [OF e] obtain f6 f7 f8 f9 f10 f11 f12 where
    fs: "fs = [t, str_int tab, current_x_param s, current_values_x s ! c,
            current_y_param s, current_values_y s ! r, f6, f7, f8, f9, f10, f11, f12]"
    by blast
  have r: "csv_reader (strip (join ''|'' (map csv_field fs))) =
             [lstrip t, str_int tab, current_x_param s, current_values_x s ! c,
              current_y_param s, current_values_y s ! r, f6, f7, f8, f9, f10, f11, rstrip f12]"
    using pl unfolding fs by (rule row_line_fields(1))
  show ?thesis
    unfolding r row_matches_def using cv b f ti
    by (simp add: row_fields strip_lstrip)
qed

lemma load_of_export:
  assumes ap: "applied L s" and cs: "clean_state today s"
    and rows: "export_rows L s = Inr rows"
    and plain: "\<forall>fs\<in>set rows. \<forall>f\<in>set fs. plain_field f"
    and hash: "\<forall>kt\<in>set (notes_dict s). \<not> startswith_hash (lstrip (snd kt))"
  shows "\<exists>s2. fst (load_from_csv L
                  (metadata_text today s @ csv_writerow fieldnames @ concat (map csv_writerow rows)) s0) =
               fst (foldl (restore_row L) (s2\<lparr>notes_dict := []\<rparr>, 0)
                      (map (\<lambda>fs. dict_row fieldnames
                                   (csv_reader (strip (join ''|'' (map csv_field fs))))) rows))
            \<and> current_values_x s2 = current_values_x s \<and> current_values_y s2 = current_values_y s
            \<and> current_x_param s2 = current_x_param s \<and> current_y_param s2 = current_y_param s
            \<and> grid_cells s \<subseteq> buttons s2"
proof -
  let ?items = "sort_key fst (notes_dict s)"
  let ?g = "dict_of (globals_of s)"
  let ?rl = "\<lambda>fs. join ''|'' (map csv_field fs)"
  let ?text = "metadata_text today s @ csv_writerow fieldnames @ concat (map csv_writerow rows)"
  define M where "M = foldl meta_update Map.empty (head_kvs today s @ range_kvs s @ global_kvs s)"
  note xp = applied_params [OF ap]
  from ap have pv: "current_x_param s = x_axis_var s" "current_y_param s = y_axis_var s"
    by (simp_all add: applied_def)
  have a2: "list_all2 (\<lambda>item fs. item \<in> set ?items \<and> fs \<in> set rows \<and> export_row L s ?g item = Inr fs)
              ?items rows"
    using rows unfolding export_rows_def by (intro list_all2_mem collect_rows_all2)
  have rowsok: "\<forall>fs\<in>set rows. one_line (?rl fs) \<and> strip (?rl fs) \<noteq> []
                  \<and> \<not> startswith_hash (strip (?rl fs))"
  proof
    fix fs
    assume fs: "fs \<in> set rows"
    from list_all2_right_mem [OF a2 fs] obtain item where
      i: "item \<in> set (notes_dict s)" "export_row L s ?g item = Inr fs"
      by auto
    obtain tab r c t where item: "item = ((tab, r, c), t)" by (metis prod.exhaust)
    from export_row_Inr(3) [OF i(2) [unfolded item]] obtain f6 f7 f8 f9 f10 f11 f12 where
      f: "fs = [t, str_int tab, current_x_param s, current_values_x s ! c,
            current_y_param s, current_values_y s ! r, f6, f7, f8, f9, f10, f11, f12]"
      by blast
    have p: "\<forall>f\<in>set [t, str_int tab, current_x_param s, current_values_x s ! c,
            current_y_param s, current_values_y s ! r, f6, f7, f8, f9, f10, f11, f12]. plain_field f"
      using plain fs unfolding f by blast
    from hash i(1) have "\<not> startswith_hash (lstrip t)" unfolding item by auto
    with row_line_fields(2-4) [OF p] show "one_line (?rl fs) \<and> strip (?rl fs) \<noteq> []
                  \<and> \<not> startswith_hash (strip (?rl fs))"
      unfolding f by simp
  qed
  have rf: "read_file ?text = (M, strip (?rl fieldnames) # map (\<lambda>fs. strip (?rl fs)) rows)"
    unfolding M_def using rowsok by (intro read_file_export [OF cs xp]) simp
  note lk = meta_lookup [OF cs xp, folded M_def]
  let ?s' = "set_vars M s0"
  note sv = set_vars_export [OF lk, of s0]
  have v: "x_axis_var ?s' = x_axis_var s" "y_axis_var ?s' = y_axis_var s"
      "x_counts_var ?s' = x_counts_var s" "y_counts_var ?s' = y_counts_var s"
      "(qpulse_mode ?s' = ''Split'') = (qpulse_mode s = ''Split'')"
      "\<forall>p\<in>set PARAMETERS. ranges ?s' p = ranges s p"
  proof -
    show "x_axis_var ?s' = x_axis_var s" unfolding sv(1) pv(1) by (rule refl)
    show "y_axis_var ?s' = y_axis_var s" unfolding sv(2) pv(2) by (rule refl)
    show "x_counts_var ?s' = x_counts_var s" unfolding sv(4) by (rule refl)
    show "y_counts_var ?s' = y_counts_var s" unfolding sv(5) by (rule refl)
    show "(qpulse_mode ?s' = ''Split'') = (qpulse_mode s = ''Split'')" unfolding sv(3) by simp
    show "\<forall>p\<in>set PARAMETERS. ranges ?s' p = ranges s p" by (rule sv(6))
  qed
  define s1 where "s1 = fst (apply_ranges L True True (set_vars M s0))"
  note aa = apply_applied [OF ap v, folded s1_def]
  have ar: "apply_ranges L True True (set_vars M s0) =
              (s1, snd (apply_ranges L True True (set_vars M s0)))"
    by (simp add: s1_def)
  obtain g where g: "restore_global M (foldl (restore_global M) s1 PARAMETERS) ''Title''
                       = s1\<lparr>global_entries := g\<rparr>"
    using foldl_restore_global [of M s1 "PARAMETERS @ [''Title'']"] by auto
  let ?s2 = "s1\<lparr>global_entries := g\<rparr>"
  have dr: "dict_reader (strip (?rl fieldnames) # map (\<lambda>fs. strip (?rl fs)) rows) =
              map (\<lambda>fs. dict_row fieldnames (csv_reader (strip (?rl fs)))) rows"
    by (simp add: dict_reader_def header_line comp_def)
  have ca: "clear_all True True ?s2 = ?s2\<lparr>notes_dict := []\<rparr>"
    by (simp add: clear_all_def)
  have ld: "fst (load_from_csv L ?text s0) =
              fst (foldl (restore_row L) (?s2\<lparr>notes_dict := []\<rparr>, 0)
                     (map (\<lambda>fs. dict_row fieldnames (csv_reader (strip (?rl fs)))) rows))"
    unfolding load_from_csv_def rf prod.case
    by (subst ar) (simp add: Let_def g dr ca split: prod.splits)
  show ?thesis
    by (rule exI [of _ ?s2]) (simp add: ld aa)
qed

lemma export_rows_cong:
  assumes "notes_dict s = notes_dict s'" "global_entries s = global_entries s'"
    "current_values_x s = current_values_x s'" "current_values_y s = current_values_y s'"
    "current_x_param s = current_x_param s'" "current_y_param s = current_y_param s'"
  shows "export_rows L s = export_rows L s'"
proof -
  have "export_row L s g = export_row L s' g" for g
    by (rule ext) (simp only: export_row_def assms)
  with assms show ?thesis by (simp add: export_rows_def globals_of_def)
qed

lemma clean_state_cong:
  assumes "x_counts_var s = x_counts_var s'" "y_counts_var s = y_counts_var s'"
    "ranges s = ranges s'" "global_entries s = global_entries s'"
  shows "clean_state d s = clean_state d s'"
  using assms by (simp add: clean_state_def)

lemma strip_clean: "s \<noteq> [] \<Longrightarrow> \<not> py_isspace (hd s) \<Longrightarrow> \<not> py_isspace (last s) \<Longrightarrow> strip s = s"
proof -
  assume a: "s \<noteq> []" "\<not> py_isspace (hd s)" "\<not> py_isspace (last s)"
  then have l: "lstrip s = s" by (cases s) (simp_all add: lstrip_def)
  from a have "rev s \<noteq> []" "\<not> py_isspace (hd (rev s))" by (simp_all add: hd_rev)
  then have "dropWhile py_isspace (rev s) = rev s" by (cases "rev s") simp_all
  then show ?thesis by (simp add: strip_def l rstrip_def)
qed

lemma clean_text_literal:
  "s \<noteq> [] \<Longrightarrow> \<not> py_isspace (hd s) \<Longrightarrow> \<not> py_isspace (last s) \<Longrightarrow> one_line s \<Longrightarrow> clean_text s"
  by (simp add: clean_text_def strip_clean)

lemma clean_state_new_app: "clean_state ''2026-01-01'' (new_app ''2026-01-01'')"
  by (simp add: clean_state_def new_app_def PARAMETERS_def default_ranges_def dict_get_def dict_of_def
        clean_text_literal one_line_def line_break_def py_isspace_def)

lemma split_state_fields:
  "x_axis_var (fst (apply_ranges declib True True split_app)) = ''Q-Pulse''"
  "y_axis_var (fst (apply_ranges declib True True split_app)) = ''Frequency''"
  "x_counts_var (fst (apply_ranges declib True True split_app)) = ''20''"
  "y_counts_var (fst (apply_ranges declib True True split_app)) = ''20''"
  "qpulse_mode (fst (apply_ranges declib True True split_app)) = ''Split''"
  "ranges (fst (apply_ranges declib True True split_app)) = default_ranges"
  "global_entries (fst (apply_ranges declib True True split_app)) = global_entries (new_app ''2026-01-01'')"
  "current_x_param (fst (apply_ranges declib True True split_app)) = ''Q-Pulse''"
  "current_y_param (fst (apply_ranges declib True True split_app)) = ''Frequency''"
  "notes_dict (fst (apply_ranges declib True True split_app)) = []"
  "buttons (fst (apply_ranges declib True True split_app)) =
     set (grid_keys 1 default_y (take 10 default_x)) \<union> set (grid_keys 2 default_y (drop 10 default_x))"
  by (simp_all add: apply_ranges_def split_app_def new_app_def dec_int_20 gen_default_x gen_default_y
       create_split_grids_def build_grid_def clear_all_def Let_def)

lemma edit_note_fields:
  "x_axis_var (edit_note k t s) = x_axis_var s" "y_axis_var (edit_note k t s) = y_axis_var s"
  "x_counts_var (edit_note k t s) = x_counts_var s" "y_counts_var (edit_note k t s) = y_counts_var s"
  "qpulse_mode (edit_note k t s) = qpulse_mode s" "ranges (edit_note k t s) = ranges s"
  "global_entries (edit_note k t s) = global_entries s"
  "current_x_param (edit_note k t s) = current_x_param s"
  "current_y_param (edit_note k t s) = current_y_param s"
  "current_values_x (edit_note k t s) = current_values_x s"
  "current_values_y (edit_note k t s) = current_values_y s"
  "buttons (edit_note k t s) = buttons s"
  by (simp_all add: edit_note_def Let_def split: option.splits)

lemma gold_notes: "notes_dict gold_app = [((1, 2, 5), ''gold'')]"
proof -
  have g: "strip ''gold'' = ''gold''" by code_simp
  show ?thesis
    by (simp add: gold_app_def edit_note_def split_state_fields grid_keys_iff g MAX_NOTE_LENGTH_def)
qed

lemma gold_fields:
  "x_axis_var gold_app = ''Q-Pulse''" "y_axis_var gold_app = ''Frequency''"
  "x_counts_var gold_app = ''20''" "y_counts_var gold_app = ''20''"
  "qpulse_mode gold_app = ''Split''" "ranges gold_app = default_ranges"
  "global_entries gold_app = global_entries (new_app ''2026-01-01'')"
  "current_x_param gold_app = ''Q-Pulse''" "current_y_param gold_app = ''Frequency''"
  "current_values_x gold_app = default_x" "current_values_y gold_app = default_y"
  by (simp_all add: gold_app_def edit_note_fields split_state_fields apply_split_app)

lemma gold_export_rows: "export_rows declib gold_app = Inr gold_rows"
proof -
  let ?X = "(new_app ''2026-01-01'')\<lparr>current_values_x := default_x, current_values_y := default_y,
     current_x_param := ''Q-Pulse'', current_y_param := ''Frequency'',
     notes_dict := [((1, 2, 5), ''gold'')]\<rparr>"
  have "export_rows declib gold_app = export_rows declib ?X"
    by (rule export_rows_cong) (simp_all add: gold_fields gold_notes)
  also have "\<dots> = Inr gold_rows"
    unfolding default_x_def default_y_def gold_rows_def by code_simp
  finally show ?thesis .
qed

text \<open>
  C1, as amended. Take a state whose grid is the one of its variables, with texts that
  survive the lines of the file, at least one note, every note on a cell of the grid and
  no note that starts with \<^verbatim>\<open>#\<close>; let every field of the exported rows be free of the
  delimiter, the quote and line breaks; and let the y value of every annotated row and
  the x value of every annotated column occur in its sequence at that index first.
  Then the export writes a file, and loading that file into any state restores exactly
  the notes, each under its own cell with its text stripped, on value sequences and axis
  parameters equal to the exported ones. The witness is the note \<^verbatim>\<open>gold\<close> at
  \<open>(1, 2, 5)\<close> of the default grid in split mode, loaded into a new application.
\<close>

theorem export_load_roundtrip:
  assumes ap: "applied L s" and cs: "clean_state today s"
    and ne: "notes_dict s \<noteq> []" and dk: "distinct (map fst (notes_dict s))"
    and rows: "export_rows L s = Inr rows"
    and plain: "\<forall>fs\<in>set rows. \<forall>f\<in>set fs. plain_field f"
    and cells: "\<forall>kt\<in>set (notes_dict s). fst kt \<in> grid_cells s \<and> \<not> startswith_hash (lstrip (snd kt))"
    and first: "\<forall>kt\<in>set (notes_dict s). case fst kt of (tab, r, c) \<Rightarrow>
                  find_index (\<lambda>v. v = current_values_y s ! r) (current_values_y s) = Some r
                  \<and> find_index (\<lambda>v. v = current_values_x s ! c) (current_values_x s) = Some c
                  \<and> py_int L (str_int tab) = Inr tab"
  shows "\<exists>text ds. export_to_csv L today True s = (Export_Written text, ds)
           \<and> notes_dict (fst (load_from_csv L text s0)) =
               map (\<lambda>kt. (fst kt, strip (snd kt))) (sort_key fst (notes_dict s))
           \<and> current_values_x (fst (load_from_csv L text s0)) = current_values_x s
           \<and> current_values_y (fst (load_from_csv L text s0)) = current_values_y s
           \<and> current_x_param (fst (load_from_csv L text s0)) = current_x_param s
           \<and> current_y_param (fst (load_from_csv L text s0)) = current_y_param s"
proof -
  let ?items = "sort_key fst (notes_dict s)"
  let ?g = "dict_of (globals_of s)"
  let ?rl = "\<lambda>fs. join ''|'' (map csv_field fs)"
  let ?text = "metadata_text today s @ csv_writerow fieldnames @ concat (map csv_writerow rows)"
  have ex: "export_to_csv L today True s =
              (Export_Written ?text,
               [ShowInfo ''Success'' (''Exported '' @ str_nat (length rows)
                                     @ '' rows + metadata (pipe delimited)'')])"
    using ne rows by (simp add: export_to_csv_def)
  from cells have hash: "\<forall>kt\<in>set (notes_dict s). \<not> startswith_hash (lstrip (snd kt))" by blast
  from load_of_export [OF ap cs rows plain hash, of s0] obtain s2 where
    ld: "fst (load_from_csv L ?text s0) =
           fst (foldl (restore_row L) (s2\<lparr>notes_dict := []\<rparr>, 0)
                  (map (\<lambda>fs. dict_row fieldnames (csv_reader (strip (?rl fs)))) rows))"
    and cv: "current_values_x s2 = current_values_x s" "current_values_y s2 = current_values_y s"
      "current_x_param s2 = current_x_param s" "current_y_param s2 = current_y_param s"
    and bt: "grid_cells s \<subseteq> buttons s2"
    by blast
  have a2: "list_all2 (\<lambda>item fs. item \<in> set ?items \<and> fs \<in> set rows \<and> export_row L s ?g item = Inr fs)
              ?items rows"
    using rows unfolding export_rows_def by (intro list_all2_mem collect_rows_all2)
  have rm: "list_all2 (row_matches L s2) ?items
              (map (\<lambda>fs. dict_row fieldnames (csv_reader (strip (?rl fs)))) rows)"
    unfolding list_all2_map2
  proof (rule list_all2_mono [OF a2])
    fix item fs
    assume h: "item \<in> set ?items \<and> fs \<in> set rows \<and> export_row L s ?g item = Inr fs"
    obtain tab r c t where item: "item = ((tab, r, c), t)" by (metis prod.exhaust)
    from h have m: "((tab, r, c), t) \<in> set (notes_dict s)" unfolding item by simp
    from cells m bt have b: "(tab, r, c) \<in> buttons s2" by auto
    from first m have f: "find_index (\<lambda>v. v = current_values_y s ! r) (current_values_y s) = Some r"
      "find_index (\<lambda>v. v = current_values_x s ! c) (current_values_x s) = Some c"
      "py_int L (str_int tab) = Inr tab"
      by auto
    from h plain have pl: "\<forall>f\<in>set fs. plain_field f" by blast
    from h have e: "export_row L s ?g ((tab, r, c), t) = Inr fs" unfolding item by simp
    show "row_matches L s2 item (dict_row fieldnames (csv_reader (strip (?rl fs))))"
      unfolding item by (rule exported_row_matches [OF e pl cv b f])
  qed
  have fr: "foldl (restore_row L) (s2\<lparr>notes_dict := []\<rparr>, 0)
              (map (\<lambda>fs. dict_row fieldnames (csv_reader (strip (?rl fs)))) rows) =
            (s2\<lparr>notes_dict := map (\<lambda>kt. (fst kt, strip (snd kt))) ?items\<rparr>, length ?items)"
    using foldl_restore_rows [OF rm, of "[]" 0]
      foldl_update_distinct [OF distinct_sort_keys [OF dk], of "[]" strip]
    by simp
  show ?thesis
    using ex by (intro exI [of _ ?text] exI) (simp add: ld fr cv)
qed

theorem export_load_roundtrip_witness:
  "applied declib gold_app \<and> clean_state ''2026-01-01'' gold_app
   \<and> export_rows declib gold_app = Inr gold_rows
   \<and> notes_dict gold_app = [((1, 2, 5), ''gold'')]
   \<and> notes_dict (fst (load_from_csv declib (written (export_to_csv declib ''2026-01-01'' True gold_app))
                         (init_app declib ''2026-02-02''))) = [((1, 2, 5), ''gold'')]"
proof -
  have ap: "applied declib gold_app"
    by (simp add: applied_def gold_fields dec_int_20 gen_default_x gen_default_y)
  have cs: "clean_state ''2026-01-01'' gold_app"
    using clean_state_new_app
      clean_state_cong [of gold_app "new_app ''2026-01-01''" "''2026-01-01''"]
    by (simp add: gold_fields new_app_def)
  have ne: "notes_dict gold_app \<noteq> []" and dk: "distinct (map fst (notes_dict gold_app))"
    by (simp_all add: gold_notes)
  have plain: "\<forall>fs\<in>set gold_rows. \<forall>f\<in>set fs. plain_field f"
    unfolding gold_rows_def by code_simp
  have h: "\<not> startswith_hash (lstrip ''gold'')" by code_simp
  have cells: "\<forall>kt\<in>set (notes_dict gold_app).
                 fst kt \<in> grid_cells gold_app \<and> \<not> startswith_hash (lstrip (snd kt))"
    using h by (simp add: gold_notes grid_cells_def gold_fields grid_keys_iff)
  have t: "py_int declib (str_int 1) = Inr 1" by code_simp
  have first: "\<forall>kt\<in>set (notes_dict gold_app). case fst kt of (tab, r, c) \<Rightarrow>
                  find_index (\<lambda>v. v = current_values_y gold_app ! r) (current_values_y gold_app) = Some r
                  \<and> find_index (\<lambda>v. v = current_values_x gold_app ! c) (current_values_x gold_app) = Some c
                  \<and> py_int declib (str_int tab) = Inr tab"
    using t by (simp add: gold_notes gold_fields) (simp add: default_x_def default_y_def)
  have g: "strip ''gold'' = ''gold''" by code_simp
  from export_load_roundtrip [OF ap cs ne dk gold_export_rows plain cells first,
      where ?s0.0 = "init_app declib ''2026-02-02''"]
  obtain out ds where e: "export_to_csv declib ''2026-01-01'' True gold_app = (Export_Written out, ds)"
    and n: "notes_dict (fst (load_from_csv declib out (init_app declib ''2026-02-02''))) =
              map (\<lambda>kt. (fst kt, strip (snd kt))) (sort_key fst (notes_dict gold_app))"
    by blast
  have w: "written (export_to_csv declib ''2026-01-01'' True gold_app) = out"
    by (simp add: written_def e)
  show ?thesis
    unfolding w n using ap cs by (simp add: gold_export_rows gold_notes g)
qed

subsection \<open>Equal values on an axis\<close>

lemma gen_narrow_x:
  "generate_values declib (default_ranges(''Q-Pulse'' := (''150'', ''152''))) ''Q-Pulse'' 20 = Inr narrow_x"
  unfolding narrow_x_def by code_simp

lemma gen_narrow_y:
  "generate_values declib (default_ranges(''Q-Pulse'' := (''150'', ''152''))) ''Frequency'' 20 = Inr default_y"
  unfolding default_y_def by code_simp

lemma narrow_state_fields:
  fixes N
  defines "N \<equiv> fst (apply_ranges declib True True
             ((new_app ''2026-01-01'')\<lparr>ranges := default_ranges(''Q-Pulse'' := (''150'', ''152''))\<rparr>))"
  shows "x_axis_var N = ''Q-Pulse''" "y_axis_var N = ''Frequency''"
    "x_counts_var N = ''20''" "y_counts_var N = ''20''"
    "qpulse_mode N = ''Single''" "ranges N = default_ranges(''Q-Pulse'' := (''150'', ''152''))"
    "global_entries N = global_entries (new_app ''2026-01-01'')"
    "current_x_param N = ''Q-Pulse''" "current_y_param N = ''Frequency''"
    "current_values_x N = narrow_x" "current_values_y N = default_y"
    "notes_dict N = []"
    "buttons N = set (grid_keys 0 default_y narrow_x)"
  unfolding N_def
  by (simp_all add: apply_ranges_def new_app_def dec_int_20 gen_narrow_x gen_narrow_y
       create_single_grid_def build_grid_def clear_all_def Let_def)

lemma narrow_notes: "notes_dict narrow_app = [((0, 0, 3), ''a''), ((0, 0, 4), ''b'')]"
proof -
  have g: "strip ''a'' = ''a''" "strip ''b'' = ''b''" by code_simp+
  show ?thesis
    by (simp add: narrow_app_def edit_note_def narrow_state_fields grid_keys_iff g MAX_NOTE_LENGTH_def
          narrow_x_def default_y_def)
qed

lemma narrow_fields:
  "x_axis_var narrow_app = ''Q-Pulse''" "y_axis_var narrow_app = ''Frequency''"
  "x_counts_var narrow_app = ''20''" "y_counts_var narrow_app = ''20''"
  "qpulse_mode narrow_app = ''Single''"
  "ranges narrow_app = default_ranges(''Q-Pulse'' := (''150'', ''152''))"
  "global_entries narrow_app = global_entries (new_app ''2026-01-01'')"
  "current_x_param narrow_app = ''Q-Pulse''" "current_y_param narrow_app = ''Frequency''"
  "current_values_x narrow_app = narrow_x" "current_values_y narrow_app = default_y"
  by (simp_all add: narrow_app_def edit_note_fields narrow_state_fields)

lemma narrow_export_rows: "export_rows declib narrow_app = Inr narrow_rows"
proof -
  let ?X = "(new_app ''2026-01-01'')\<lparr>current_values_x := narrow_x, current_values_y := default_y,
     current_x_param := ''Q-Pulse'', current_y_param := ''Frequency'',
     notes_dict := [((0, 0, 3), ''a''), ((0, 0, 4), ''b'')]\<rparr>"
  have "export_rows declib narrow_app = export_rows declib ?X"
    by (rule export_rows_cong) (simp_all add: narrow_fields narrow_notes)
  also have "\<dots> = Inr narrow_rows"
    unfolding narrow_x_def default_y_def narrow_rows_def by code_simp
  finally show ?thesis .
qed

lemma clean_state_ranges:
  assumes "clean_state d s" "clean_text a" "clean_text b" "ranges s' = (ranges s)(p := (a, b))"
    "x_counts_var s' = x_counts_var s" "y_counts_var s' = y_counts_var s"
    "global_entries s' = global_entries s"
  shows "clean_state d s'"
  using assms by (simp add: clean_state_def)

lemma narrow_clean: "clean_state ''2026-01-01'' narrow_app"
proof -
  have c: "clean_text ''150''" "clean_text ''152''"
    by (simp_all add: clean_text_literal one_line_def line_break_def py_isspace_def)
  show ?thesis
    by (rule clean_state_ranges [OF clean_state_new_app c]) (simp_all add: narrow_fields new_app_def)
qed

text \<open>
  C1, as stated, fails: with the Q-Pulse range \<^verbatim>\<open>150\<close> to \<^verbatim>\<open>152\<close> on twenty columns the
  x values repeat, the notes \<^verbatim>\<open>a\<close> and \<^verbatim>\<open>b\<close> of columns 3 and 4 are both exported
  with the x value \<^verbatim>\<open>150\<close>, and the import stores both under column 0, the first column
  with that value: of the two notes one is left, at a cell that had none.
\<close>

theorem export_load_merges_equal_values:
  "notes_dict narrow_app = [((0, 0, 3), ''a''), ((0, 0, 4), ''b'')]
   \<and> notes_dict (fst (load_from_csv declib
        (written (export_to_csv declib ''2026-01-01'' True narrow_app))
        (init_app declib ''2026-01-01''))) = [((0, 0, 0), ''b'')]"
proof -
  let ?s0 = "init_app declib ''2026-01-01''"
  let ?file = "metadata_text ''2026-01-01'' narrow_app @ csv_writerow fieldnames
                 @ concat (map csv_writerow narrow_rows)"
  have ap: "applied declib narrow_app"
    by (simp add: applied_def narrow_fields dec_int_20 gen_narrow_x gen_narrow_y)
  have plain: "\<forall>fs\<in>set narrow_rows. \<forall>f\<in>set fs. plain_field f"
    unfolding narrow_rows_def by code_simp
  have h: "\<not> startswith_hash (lstrip ''a'')" "\<not> startswith_hash (lstrip ''b'')" by code_simp+
  from h have hash: "\<forall>kt\<in>set (notes_dict narrow_app). \<not> startswith_hash (lstrip (snd kt))"
    by (simp add: narrow_notes)
  have w: "written (export_to_csv declib ''2026-01-01'' True narrow_app) = ?file"
    by (simp add: written_def export_to_csv_def narrow_notes narrow_export_rows)
  from load_of_export [OF ap narrow_clean narrow_export_rows plain hash, of ?s0] obtain s2 where
    ld: "fst (load_from_csv declib ?file ?s0) =
           fst (foldl (restore_row declib) (s2\<lparr>notes_dict := []\<rparr>, 0)
                  (map (\<lambda>fs. dict_row fieldnames (csv_reader (strip (join ''|'' (map csv_field fs)))))
                     narrow_rows))"
    and cv: "current_values_x s2 = narrow_x" "current_values_y s2 = default_y"
      "current_x_param s2 = ''Q-Pulse''" "current_y_param s2 = ''Frequency''"
    and bt: "grid_cells narrow_app \<subseteq> buttons s2"
    unfolding narrow_fields by blast
  have "(0, 0, 0) \<in> grid_cells narrow_app"
    by (simp add: grid_cells_def narrow_fields grid_keys_iff narrow_x_def default_y_def)
  with bt have b: "(0, 0, 0) \<in> buttons s2" by blast
  have st: "lstrip ''a'' = ''a''" "lstrip ''b'' = ''b''" "rstrip ''150'' = ''150''"
    "strip ''a'' = ''a''" "strip ''b'' = ''b''"
    by code_simp+
  have t: "py_int declib ''0'' = Inr 0" by code_simp
  have fy: "find_index (\<lambda>v. v = ''3800.0'') default_y = Some 0"
    unfolding default_y_def by code_simp
  have fx: "find_index (\<lambda>v. v = ''150'') narrow_x = Some 0"
    unfolding narrow_x_def by code_simp
  have r: "restore_row declib (s2\<lparr>notes_dict := nts\<rparr>, n)
             (dict_row fieldnames [t0, ''0'', ''Q-Pulse'', ''150'', ''Frequency'', ''3800.0'',
                a6, a7, a8, a9, a10, a11, a12]) =
           (s2\<lparr>notes_dict := AList.update (0, 0, 0) (strip t0) nts\<rparr>, n + 1)" for nts n t0 a6 a7 a8 a9 a10 a11 a12
    using restore_row_stores [of _ "s2\<lparr>notes_dict := nts\<rparr>" "''150''" "''3800.0''" t0 "''0''" declib 0 0 0 n]
    by (simp add: row_fields cv t fy fx b)
  have rows: "map (\<lambda>fs. dict_row fieldnames (csv_reader (strip (join ''|'' (map csv_field fs)))))
                narrow_rows =
              [dict_row fieldnames [''a'', ''0'', ''Q-Pulse'', ''150'', ''Frequency'', ''3800.0'',
                 ''a (S:3000 P:20 F:3800 QP:150 LI:0.0250 Pass:10)'', ''3000'', ''20'', ''3800.0'',
                 ''0.0250'', ''10'', ''150''],
               dict_row fieldnames [''b'', ''0'', ''Q-Pulse'', ''150'', ''Frequency'', ''3800.0'',
                 ''b (S:3000 P:20 F:3800 QP:150 LI:0.0250 Pass:10)'', ''3000'', ''20'', ''3800.0'',
                 ''0.0250'', ''10'', ''150'']]"
  proof -
    have p1: "\<forall>f\<in>set [''a'', ''0'', ''Q-Pulse'', ''150'', ''Frequency'', ''3800.0'',
                 ''a (S:3000 P:20 F:3800 QP:150 LI:0.0250 Pass:10)'', ''3000'', ''20'', ''3800.0'',
                 ''0.0250'', ''10'', ''150'']. plain_field f"
      and p2: "\<forall>f\<in>set [''b'', ''0'', ''Q-Pulse'', ''150'', ''Frequency'', ''3800.0'',
                 ''b (S:3000 P:20 F:3800 QP:150 LI:0.0250 Pass:10)'', ''3000'', ''20'', ''3800.0'',
                 ''0.0250'', ''10'', ''150'']. plain_field f"
      by code_simp+
    show ?thesis
      by (simp only: narrow_rows_def list.map row_line_fields(1) [OF p1, unfolded list.map]
            row_line_fields(1) [OF p2, unfolded list.map] st)
  qed
  show ?thesis
    unfolding w ld rows by (simp add: r st narrow_notes)
qed

end
